theory Spec2Isabelle
  imports Main
begin

section \<open>Python strings\<close>

text \<open>
  The repository keeps \<^verbatim>\<open>scripts/setup-branch-protection.py\<close> as a listing in which every
  line is commented out; this theory models the program that listing spells out.

  The script works on Python \<^verbatim>\<open>str\<close> values.
  They are modelled as HOL strings, a character standing for a code point below 256.
  The glyphs the print helpers put in front of a message lie beyond that range; they are
  written as the bytes of their UTF-8 encoding, which is what reaches the terminal.
  The built-in string methods the script calls are written out below.
\<close>

definition isspace :: "char \<Rightarrow> bool" where
  \<comment> \<open>\<^verbatim>\<open>str.isspace\<close> on one character: TAB..CR, FS..US, SPACE, NEL, NBSP.\<close>
  "isspace c = (let n = (of_char c :: nat) in
     (9 \<le> n \<and> n \<le> 13) \<or> (28 \<le> n \<and> n \<le> 32) \<or> n = 133 \<or> n = 160)"

definition strip :: "string \<Rightarrow> string" where
  \<comment> \<open>\<^verbatim>\<open>s.strip()\<close>\<close>
  "strip s = rev (dropWhile isspace (rev (dropWhile isspace s)))"

fun startswith :: "string \<Rightarrow> string \<Rightarrow> bool" where
  \<comment> \<open>\<^verbatim>\<open>s.startswith(p)\<close>\<close>
  "startswith s [] = True"
| "startswith [] (p # ps) = False"
| "startswith (c # cs) (p # ps) = (c = p \<and> startswith cs ps)"

fun contains :: "string \<Rightarrow> string \<Rightarrow> bool" where
  \<comment> \<open>\<^verbatim>\<open>sub in s\<close>\<close>
  "contains [] sub = (sub = [])"
| "contains (c # cs) sub = (startswith (c # cs) sub \<or> contains cs sub)"

function replace :: "string \<Rightarrow> string \<Rightarrow> string \<Rightarrow> string" where
  \<comment> \<open>\<^verbatim>\<open>s.replace(old, new)\<close>: every occurrence, left to right, without rescanning.\<close>
  "replace [] old new = (if old = [] then new else [])"
| "replace (c # cs) old new =
     (if old = [] then new @ c # replace cs old new
      else if startswith (c # cs) old then new @ replace (drop (length old) (c # cs)) old new
      else c # replace cs old new)"
  by pat_completeness auto
termination
  by (relation "measure (\<lambda>(s, old, new). length s)") auto

function split_from :: "string \<Rightarrow> string \<Rightarrow> string \<Rightarrow> string list" where
  \<comment> \<open>The scan of \<^verbatim>\<open>s.split(sep)\<close>; \<open>cur\<close> is the piece read since the last separator.\<close>
  "split_from cur [] sep = [cur]"
| "split_from cur (c # cs) sep =
     (if sep \<noteq> [] \<and> startswith (c # cs) sep
      then cur # split_from [] (drop (length sep) (c # cs)) sep
      else split_from (cur @ [c]) cs sep)"
  by pat_completeness auto
termination
  by (relation "measure (\<lambda>(cur, s, sep). length s)") auto

definition split :: "string \<Rightarrow> string \<Rightarrow> string list" where
  \<comment> \<open>\<^verbatim>\<open>s.split(sep)\<close>. The script only passes non-empty literals as \<open>sep\<close>
      (Python raises ValueError on an empty one).\<close>
  "split s sep = split_from [] s sep"

definition lower_char :: "char \<Rightarrow> char" where
  \<comment> \<open>An upper-case letter (A..Z, and U+00C0..U+00DE but the multiplication sign) moves
      up by 32, which sets bit 5; every other character below 256 stays.\<close>
  "lower_char c = (let n = (of_char c :: nat) in
     if (65 \<le> n \<and> n \<le> 90) \<or> (192 \<le> n \<and> n \<le> 222 \<and> n \<noteq> 215)
     then (case c of Char b0 b1 b2 b3 b4 b5 b6 b7 \<Rightarrow> Char b0 b1 b2 b3 b4 True b6 b7)
     else c)"

definition lower :: "string \<Rightarrow> string" where
  \<comment> \<open>\<^verbatim>\<open>s.lower()\<close>\<close>
  "lower s = map lower_char s"

fun join :: "string \<Rightarrow> string list \<Rightarrow> string" where
  \<comment> \<open>\<^verbatim>\<open>sep.join(xs)\<close>\<close>
  "join sep [] = []"
| "join sep [x] = x"
| "join sep (x # y # ys) = x @ sep @ join sep (y # ys)"

fun digits :: "nat \<Rightarrow> string" where
  "digits n = (if n < 10 then [''0123456789'' ! n]
               else digits (n div 10) @ [''0123456789'' ! (n mod 10)])"

declare digits.simps [simp del]

definition str_int :: "int \<Rightarrow> string" where
  \<comment> \<open>\<^verbatim>\<open>str(i)\<close> of an int, as an f-string formats it.\<close>
  "str_int i = (if i < 0 then CHR ''-'' # digits (nat (- i)) else digits (nat i))"

section \<open>Exceptions, effects and the outside world\<close>

datatype exn =
    CalledProcessError
  | RequestException string
  | KeyboardInterrupt
  | SystemExit int
  | IndexError
  | AttributeError
  | OtherException string

text \<open>
  \<open>RequestException msg\<close> stands for \<^verbatim>\<open>requests.exceptions.RequestException\<close> and its
  subclasses, \<open>msg\<close> being \<^verbatim>\<open>str(e)\<close>; \<open>SystemExit n\<close> is what \<^verbatim>\<open>sys.exit(n)\<close> raises;
  \<open>OtherException\<close> is any class the script has no handler for (FileNotFoundError when
  the git binary is missing, EOFError on a closed standard input, ...).
\<close>

datatype 'a call = Returns 'a | Raises exn

datatype json_value =
    JNull
  | JBool bool
  | JInt int
  | JStr string
  | JList "json_value list"
  | JDict "(string \<times> json_value) list"

text \<open>
  A decoded JSON value, and the literal \<^verbatim>\<open>PROTECTION_CONFIG\<close>. \<open>JDict\<close> lists the items
  of a dict, whose keys are distinct; non-integer numbers do not occur in what the script
  reads or writes and have no constructor.
\<close>

record request =
  url :: string
  headers :: "(string \<times> string) list"
  json :: "json_value option"
  timeout :: nat

record response =
  status_code :: int
  text_of :: string
  json_body :: "json_value option"

text \<open>
  \<open>text_of\<close> is \<^verbatim>\<open>response.text\<close>. \<open>json_body\<close> is the outcome of \<^verbatim>\<open>response.json()\<close>:
  the decoded value, or \<open>None\<close> when the body is not JSON and the call raises
  \<^verbatim>\<open>requests.exceptions.JSONDecodeError\<close>, a RequestException.
\<close>

datatype stream = Stdout | Stderr

datatype event =
    Print stream string
  | Prompt string
  | Subprocess "string list"
  | HttpPut request
  | HttpGet request
  | Traceback exn

type_synonym 'a run = "event list \<times> (exn + 'a)"

text \<open>
  A run of a function is the list of its effects, in order, and what it ended with: an
  exception (\<open>Inl\<close>) or a value. A printed line is one \<open>Print\<close>; the prompt of
  \<^verbatim>\<open>input\<close> is a \<open>Prompt\<close>; a request is recorded when it is issued, whatever comes
  back.
\<close>

definition emit :: "event list \<Rightarrow> unit run" where
  "emit evs = (evs, Inr ())"

definition raise :: "exn \<Rightarrow> 'a run" where
  "raise e = ([], Inl e)"

definition return :: "'a \<Rightarrow> 'a run" where
  "return x = ([], Inr x)"

definition bind_run :: "'a run \<Rightarrow> ('a \<Rightarrow> 'b run) \<Rightarrow> 'b run" where
  \<comment> \<open>Sequencing: the second part runs only if the first did not raise.\<close>
  "bind_run m k =
     (case m of
        (evs, Inl e) \<Rightarrow> (evs, Inl e)
      | (evs, Inr x) \<Rightarrow> (case k x of (evs', r) \<Rightarrow> (evs @ evs', r)))"

record world =
  environ :: "string \<Rightarrow> string option"
  git_remote :: "string call"
  user_input :: "string call"
  put_result :: "response call"
  get_result :: "response call"
  format_value :: "json_value \<Rightarrow> string"

text \<open>
  What the script meets outside itself: the environment variables; the outcome of
  \<^verbatim>\<open>subprocess.run(["git", "remote", "get-url", "origin"], ..., check=True)\<close> (its
  standard output, or an exception); the outcome of \<^verbatim>\<open>input\<close>; the outcomes of
  \<^verbatim>\<open>requests.put\<close> and \<^verbatim>\<open>requests.get\<close>; and how an f-string renders a decoded JSON
  value (Python's \<^verbatim>\<open>str\<close>). Each call is made at most once in a run.
\<close>

section \<open>The script\<close>

subsection \<open>Configuration\<close>

definition getenv :: "(string \<Rightarrow> string option) \<Rightarrow> string \<Rightarrow> string \<Rightarrow> string" where
  \<comment> \<open>\<^verbatim>\<open>os.getenv(name, dflt)\<close>\<close>
  "getenv env name dflt = (case env name of None \<Rightarrow> dflt | Some v \<Rightarrow> v)"

definition OWNER :: "world \<Rightarrow> string" where
  "OWNER w = getenv (environ w) ''GITHUB_OWNER'' ''''"

definition REPO :: "world \<Rightarrow> string" where
  "REPO w = getenv (environ w) ''GITHUB_REPO'' ''''"

definition BRANCH :: string where
  "BRANCH = ''master''"

definition GITHUB_TOKEN :: "world \<Rightarrow> string" where
  "GITHUB_TOKEN w = getenv (environ w) ''GITHUB_TOKEN'' ''''"

definition required_contexts :: "string list" where
  "required_contexts = [''quality'', ''deploy'']"

definition required_approving_review_count :: int where
  "required_approving_review_count = 1"

text \<open>
  The two entries of \<^verbatim>\<open>PROTECTION_CONFIG\<close> that \<^verbatim>\<open>main\<close> reads back for display,
  \<^verbatim>\<open>['required_status_checks']['contexts']\<close> and
  \<^verbatim>\<open>['required_pull_request_reviews']['required_approving_review_count']\<close>, are named.
\<close>

definition PROTECTION_CONFIG :: json_value where
  "PROTECTION_CONFIG = JDict
     [(''required_status_checks'', JDict
         [(''strict'', JBool True),
          (''contexts'', JList (map JStr required_contexts))]),
      (''enforce_admins'', JBool True),
      (''required_pull_request_reviews'', JDict
         [(''dismiss_stale_reviews'', JBool True),
          (''require_code_owner_reviews'', JBool False),
          (''required_approving_review_count'', JInt required_approving_review_count),
          (''require_last_push_approval'', JBool True),
          (''dismissal_restrictions'', JDict [])]),
      (''restrictions'', JNull),
      (''required_linear_history'', JBool True),
      (''allow_force_pushes'', JBool False),
      (''allow_deletions'', JBool False),
      (''required_conversation_resolution'', JBool True),
      (''lock_branch'', JBool False),
      (''allow_fork_syncing'', JBool True)]"

subsection \<open>Print helpers\<close>

definition glyph_check :: string where
  \<comment> \<open>U+2705\<close>
  "glyph_check = [CHR 0xE2, CHR 0x9C, CHR 0x85]"

definition glyph_cross :: string where
  \<comment> \<open>U+274C\<close>
  "glyph_cross = [CHR 0xE2, CHR 0x9D, CHR 0x8C]"

definition glyph_warning :: string where
  \<comment> \<open>U+26A0 U+FE0F\<close>
  "glyph_warning = [CHR 0xE2, CHR 0x9A, CHR 0xA0, CHR 0xEF, CHR 0xB8, CHR 0x8F]"

definition glyph_info :: string where
  \<comment> \<open>U+2139 U+FE0F\<close>
  "glyph_info = [CHR 0xE2, CHR 0x84, CHR 0xB9, CHR 0xEF, CHR 0xB8, CHR 0x8F]"

definition glyph_bullet :: string where
  \<comment> \<open>U+2022\<close>
  "glyph_bullet = [CHR 0xE2, CHR 0x80, CHR 0xA2]"

definition glyph_package :: string where
  \<comment> \<open>U+1F4E6\<close>
  "glyph_package = [CHR 0xF0, CHR 0x9F, CHR 0x93, CHR 0xA6]"

definition glyph_herb :: string where
  \<comment> \<open>U+1F33F\<close>
  "glyph_herb = [CHR 0xF0, CHR 0x9F, CHR 0x8C, CHR 0xBF]"

definition print_header :: "string \<Rightarrow> event list" where
  "print_header text =
     [Print Stdout '''',
      Print Stdout (replicate 60 CHR ''=''),
      Print Stdout (''  '' @ text),
      Print Stdout (replicate 60 CHR ''=''),
      Print Stdout '''']"

definition print_success :: "string \<Rightarrow> event list" where
  "print_success text = [Print Stdout (glyph_check @ '' '' @ text)]"

definition print_error :: "string \<Rightarrow> event list" where
  "print_error text = [Print Stderr (glyph_cross @ '' '' @ text)]"

definition print_warning :: "string \<Rightarrow> event list" where
  "print_warning text = [Print Stdout (glyph_warning @ ''  '' @ text)]"

definition print_info :: "string \<Rightarrow> event list" where
  "print_info text = [Print Stdout (glyph_info @ ''  '' @ text)]"

subsection \<open>Coordinate resolution\<close>

definition index :: "'a list \<Rightarrow> nat \<Rightarrow> exn + 'a" where
  \<comment> \<open>\<^verbatim>\<open>xs[i]\<close> for a literal \<open>i \<ge> 0\<close>\<close>
  "index xs i = (if i < length xs then Inr (xs ! i) else Inl IndexError)"

definition remote_parts :: "string \<Rightarrow> exn + string list" where
  \<comment> \<open>The \<^verbatim>\<open>if "https://" in remote_url: ... else: ...\<close> that computes \<^verbatim>\<open>parts\<close>.\<close>
  "remote_parts remote_url =
     (if contains remote_url ''https://''
      then (case index (split remote_url ''github.com/'') 1 of
              Inl e \<Rightarrow> Inl e
            | Inr rest \<Rightarrow> Inr (split rest ''/''))
      else (case index (split remote_url '':'') 1 of
              Inl e \<Rightarrow> Inl e
            | Inr rest \<Rightarrow> Inr (split rest ''/'')))"

definition parse_remote :: "string \<Rightarrow> exn + (string option \<times> string option)" where
  \<comment> \<open>The body of the \<^verbatim>\<open>try\<close> of \<^verbatim>\<open>get_repo_info\<close> after \<^verbatim>\<open>remote_url\<close> is read.\<close>
  "parse_remote remote_url =
     (if contains remote_url ''github.com''
      then (case remote_parts (replace remote_url ''.git'' '''') of
              Inl e \<Rightarrow> Inl e
            | Inr parts \<Rightarrow>
                if length parts \<ge> 2 then Inr (Some (parts ! 0), Some (parts ! 1))
                else Inr (None, None))
      else Inr (None, None))"

definition git_command :: "string list" where
  "git_command = [''git'', ''remote'', ''get-url'', ''origin'']"

definition get_repo_info :: "string call \<Rightarrow> (string option \<times> string option) run" where
  "get_repo_info git =
     (case git of
        Returns stdout \<Rightarrow> ([Subprocess git_command], parse_remote (strip stdout))
      | Raises e \<Rightarrow>
          if e = CalledProcessError then ([Subprocess git_command], Inr (None, None))
          else ([Subprocess git_command], Inl e))"

subsection \<open>Applying and verifying the protection\<close>

definition protection_url :: "string \<Rightarrow> string \<Rightarrow> string \<Rightarrow> string" where
  "protection_url owner repo branch =
     ''https://api.github.com/repos/'' @ owner @ ''/'' @ repo @ ''/branches/'' @ branch @ ''/protection''"

definition api_headers :: "string \<Rightarrow> (string \<times> string) list" where
  "api_headers token =
     [(''Accept'', ''application/vnd.github+json''),
      (''Authorization'', ''Bearer '' @ token),
      (''X-GitHub-Api-Version'', ''2022-11-28'')]"

definition put_request :: "string \<Rightarrow> string \<Rightarrow> string \<Rightarrow> string \<Rightarrow> request" where
  \<comment> \<open>\<^verbatim>\<open>requests.put(url, headers=headers, json=PROTECTION_CONFIG, timeout=30)\<close>\<close>
  "put_request owner repo branch token =
     \<lparr>url = protection_url owner repo branch, headers = api_headers token,
      json = Some PROTECTION_CONFIG, timeout = 30\<rparr>"

definition get_request :: "string \<Rightarrow> string \<Rightarrow> string \<Rightarrow> string \<Rightarrow> request" where
  \<comment> \<open>\<^verbatim>\<open>requests.get(url, headers=headers, timeout=30)\<close>\<close>
  "get_request owner repo branch token =
     \<lparr>url = protection_url owner repo branch, headers = api_headers token,
      json = None, timeout = 30\<rparr>"

definition apply_response :: "string \<Rightarrow> string \<Rightarrow> string \<Rightarrow> response \<Rightarrow> bool run" where
  \<comment> \<open>The \<^verbatim>\<open>if\<close>/\<^verbatim>\<open>elif\<close> chain on \<^verbatim>\<open>response.status_code\<close>.\<close>
  "apply_response owner repo branch response =
     (if status_code response = 200 then
        (print_success ''Branch protection applied successfully!'', Inr True)
      else if status_code response = 401 then
        (print_error ''Authentication failed. Check your GITHUB_TOKEN.''
         @ print_info ''Generate a token at: https://github.com/settings/tokens''
         @ print_info ''Required scopes: repo (full control)'', Inr False)
      else if status_code response = 403 then
        (print_error ''Permission denied. You need admin access to this repository.'', Inr False)
      else if status_code response = 404 then
        (print_error (''Repository or branch not found: '' @ owner @ ''/'' @ repo @ ''/'' @ branch)
         @ print_info ''Make sure the branch exists and you have access.'', Inr False)
      else
        (print_error (''Failed with status code: '' @ str_int (status_code response))
         @ print_error (''Response: '' @ text_of response), Inr False))"

definition apply_branch_protection ::
  "response call \<Rightarrow> string \<Rightarrow> string \<Rightarrow> string \<Rightarrow> string \<Rightarrow> bool run" where
  "apply_branch_protection put owner repo branch token =
     bind_run (emit [Print Stdout ''Applying branch protection...'', Print Stdout '''']) (\<lambda>_.
     bind_run (emit [HttpPut (put_request owner repo branch token)]) (\<lambda>_.
       case put of
         Returns response \<Rightarrow> apply_response owner repo branch response
       | Raises e \<Rightarrow>
           (case e of
              RequestException msg \<Rightarrow> (print_error (''Request failed: '' @ msg), Inr False)
            | _ \<Rightarrow> raise e)))"

definition dict_get :: "json_value \<Rightarrow> string \<Rightarrow> json_value \<Rightarrow> exn + json_value" where
  \<comment> \<open>\<^verbatim>\<open>d.get(key, dflt)\<close>: only a dict has the method.\<close>
  "dict_get d key dflt =
     (case d of
        JDict items \<Rightarrow> Inr (case map_of items key of Some v \<Rightarrow> v | None \<Rightarrow> dflt)
      | _ \<Rightarrow> Inl AttributeError)"

definition get2 ::
  "json_value \<Rightarrow> string \<Rightarrow> json_value \<Rightarrow> string \<Rightarrow> json_value \<Rightarrow> exn + json_value" where
  \<comment> \<open>\<^verbatim>\<open>data.get(k1, d1).get(k2, d2)\<close>\<close>
  "get2 data k1 d1 k2 d2 =
     (case dict_get data k1 d1 of Inl e \<Rightarrow> Inl e | Inr v \<Rightarrow> dict_get v k2 d2)"

definition settings_line :: "(json_value \<Rightarrow> string) \<Rightarrow> string \<Rightarrow> exn + json_value \<Rightarrow> unit run" where
  \<comment> \<open>One \<^verbatim>\<open>print(f"  (bullet) label: {value}")\<close>: the value is computed first, and may raise.\<close>
  "settings_line fmt label v =
     (case v of
        Inl e \<Rightarrow> raise e
      | Inr x \<Rightarrow> emit [Print Stdout (''  '' @ glyph_bullet @ '' '' @ label @ '': '' @ fmt x)])"

definition verify_response :: "(json_value \<Rightarrow> string) \<Rightarrow> response \<Rightarrow> unit run" where
  \<comment> \<open>The body of the \<^verbatim>\<open>try\<close> of \<^verbatim>\<open>verify_protection\<close> once the response is there,
      with the handler of the RequestException that \<^verbatim>\<open>response.json()\<close> may raise.\<close>
  "verify_response fmt response =
     (if status_code response = 200 then
        (case json_body response of
           None \<Rightarrow> emit (print_warning ''Verification request failed (settings may still be applied)'')
         | Some data \<Rightarrow>
             bind_run (emit (print_success ''Verification successful''
                             @ [Print Stdout '''', Print Stdout ''Current settings:''])) (\<lambda>_.
             bind_run (settings_line fmt ''Required status checks''
                         (get2 data ''required_status_checks'' (JDict []) ''contexts'' (JList []))) (\<lambda>_.
             bind_run (settings_line fmt ''Required approvals''
                         (get2 data ''required_pull_request_reviews'' (JDict [])
                            ''required_approving_review_count'' (JInt 0))) (\<lambda>_.
             bind_run (settings_line fmt ''Enforce for admins''
                         (get2 data ''enforce_admins'' (JDict []) ''enabled'' (JBool False))) (\<lambda>_.
             settings_line fmt ''Linear history''
                         (get2 data ''required_linear_history'' (JDict []) ''enabled'' (JBool False)))))))
      else emit (print_warning ''Unable to verify settings (may still be applied)''))"

definition verify_protection ::
  "response call \<Rightarrow> (json_value \<Rightarrow> string) \<Rightarrow> string \<Rightarrow> string \<Rightarrow> string \<Rightarrow> string \<Rightarrow> unit run" where
  "verify_protection get fmt owner repo branch token =
     bind_run (emit [Print Stdout '''', Print Stdout ''Verifying configuration...'', Print Stdout '''']) (\<lambda>_.
     bind_run (emit [HttpGet (get_request owner repo branch token)]) (\<lambda>_.
       case get of
         Returns response \<Rightarrow> verify_response fmt response
       | Raises e \<Rightarrow>
           (case e of
              RequestException msg \<Rightarrow>
                emit (print_warning ''Verification request failed (settings may still be applied)'')
            | _ \<Rightarrow> raise e)))"

subsection \<open>The main function and the entry point\<close>

definition falsy :: "string option \<Rightarrow> bool" where
  \<comment> \<open>\<^verbatim>\<open>not x\<close> for \<open>x\<close> a string or \<^verbatim>\<open>None\<close>\<close>
  "falsy x = (x = None \<or> x = Some '''')"

definition usage_lines :: "event list" where
  "usage_lines =
     print_error ''Unable to detect repository. Please set GITHUB_OWNER and GITHUB_REPO''
     @ [Print Stdout '''',
        Print Stdout ''Usage:'',
        Print Stdout ''  export GITHUB_OWNER=your-username'',
        Print Stdout ''  export GITHUB_REPO=your-repo'',
        Print Stdout ''  python setup-branch-protection.py'']"

definition token_help_lines :: "event list" where
  "token_help_lines =
     print_error ''GITHUB_TOKEN environment variable not set''
     @ [Print Stdout '''',
        Print Stdout ''Get your token from: https://github.com/settings/tokens'',
        Print Stdout ''Required scopes: repo (full control)'',
        Print Stdout '''',
        Print Stdout ''Then set it:'',
        Print Stdout ''  export GITHUB_TOKEN=your_token_here'',
        Print Stdout '''',
        Print Stdout ''Or use GitHub CLI:'',
        Print Stdout ''  export GITHUB_TOKEN=$(gh auth token)'']"

definition plan_lines :: "string \<Rightarrow> string \<Rightarrow> event list" where
  \<comment> \<open>"Display configuration" and "Show what will be configured".\<close>
  "plan_lines owner repo =
     [Print Stdout (glyph_package @ '' Repository: '' @ owner @ ''/'' @ repo),
      Print Stdout (glyph_herb @ '' Branch: '' @ BRANCH),
      Print Stdout '''',
      Print Stdout ''Configuration to be applied:'',
      Print Stdout '''',
      Print Stdout (glyph_check @ '' Require status checks to pass before merging''),
      Print Stdout (''   - Required checks: '' @ join '', '' required_contexts),
      Print Stdout ''   - Require branch to be up to date'',
      Print Stdout '''',
      Print Stdout (glyph_check @ '' Require pull request reviews''),
      Print Stdout (''   - Required approving reviews: '' @ str_int required_approving_review_count),
      Print Stdout ''   - Dismiss stale reviews on new commits'',
      Print Stdout ''   - Require approval of most recent push'',
      Print Stdout '''',
      Print Stdout (glyph_check @ '' Require conversation resolution before merging''),
      Print Stdout (glyph_check @ '' Require linear history (no merge commits)''),
      Print Stdout (glyph_check @ '' Enforce restrictions for administrators''),
      Print Stdout (glyph_cross @ '' Block force pushes''),
      Print Stdout (glyph_cross @ '' Block branch deletion''),
      Print Stdout '''']"

definition summary_lines :: "string \<Rightarrow> string \<Rightarrow> event list" where
  "summary_lines owner repo =
     [Print Stdout '''',
      Print Stdout ''Summary:'',
      Print Stdout (''  '' @ glyph_bullet @ '' Direct pushes to '' @ [CHR 0x27] @ BRANCH @ [CHR 0x27]
                    @ '' are now blocked''),
      Print Stdout (''  '' @ glyph_bullet @ '' All changes must go through Pull Requests''),
      Print Stdout (''  '' @ glyph_bullet @ '' CI jobs ('' @ join '', '' required_contexts @ '') must pass''),
      Print Stdout (''  '' @ glyph_bullet @ '' '' @ str_int required_approving_review_count
                    @ '' approval(s) required''),
      Print Stdout '''',
      Print Stdout ''View settings at:'',
      Print Stdout (''  https://github.com/'' @ owner @ ''/'' @ repo @ ''/settings/branches'')]"

definition input_line :: "string call \<Rightarrow> string \<Rightarrow> string run" where
  \<comment> \<open>\<^verbatim>\<open>input(prompt)\<close>\<close>
  "input_line inp prompt =
     (case inp of Returns line \<Rightarrow> ([Prompt prompt], Inr line) | Raises e \<Rightarrow> ([Prompt prompt], Inl e))"

definition resolve_coordinates :: "world \<Rightarrow> (string \<times> string) run" where
  \<comment> \<open>"Get configuration" and "Auto-detect repository if not specified" of \<^verbatim>\<open>main\<close>.\<close>
  "resolve_coordinates w =
     (if OWNER w = '''' \<or> REPO w = '''' then
        bind_run (emit (print_info ''Auto-detecting repository from git remote...'')) (\<lambda>_.
        bind_run (get_repo_info (git_remote w)) (\<lambda>(owner, repo).
          if falsy owner \<or> falsy repo then
            bind_run (emit usage_lines) (\<lambda>_. raise (SystemExit 1))
          else return (the owner, the repo)))
      else return (OWNER w, REPO w))"

definition main :: "world \<Rightarrow> unit run" where
  "main w =
     bind_run (emit (print_header ''Branch Protection Setup'')) (\<lambda>_.
     bind_run (resolve_coordinates w) (\<lambda>(owner, repo).
     bind_run (if GITHUB_TOKEN w = '''' then
                 bind_run (emit token_help_lines) (\<lambda>_. raise (SystemExit 1))
               else return ()) (\<lambda>_.
     bind_run (emit (plan_lines owner repo)) (\<lambda>_.
     bind_run (input_line (user_input w) ''Apply these settings? (y/N): '') (\<lambda>response.
     bind_run (if lower response \<notin> set [''y'', ''yes''] then
                 bind_run (emit (print_warning ''Cancelled'')) (\<lambda>_. raise (SystemExit 0))
               else return ()) (\<lambda>_.
     bind_run (emit [Print Stdout '''']) (\<lambda>_.
     bind_run (apply_branch_protection (put_result w) owner repo BRANCH (GITHUB_TOKEN w)) (\<lambda>success.
       if success then
         bind_run (emit (summary_lines owner repo)) (\<lambda>_.
         bind_run (verify_protection (get_result w) (format_value w) owner repo BRANCH
                     (GITHUB_TOKEN w)) (\<lambda>_.
         emit (Print Stdout '''' # print_header ''Setup Complete!'')))
       else
         bind_run (emit (Print Stdout '''' # print_header ''Setup Failed'')) (\<lambda>_.
         raise (SystemExit 1))))))))))"

definition script :: "world \<Rightarrow> event list \<times> int" where
  \<comment> \<open>The \<^verbatim>\<open>if __name__ == "__main__"\<close> block and the interpreter around it: the events
      of the process and its exit code. \<^verbatim>\<open>sys.exit(n)\<close> ends the process with code \<open>n\<close>;
      an exception nothing handles prints a traceback and ends it with code 1.\<close>
  "script w =
     (case main w of
        (evs, Inr _) \<Rightarrow> (evs, 0)
      | (evs, Inl e) \<Rightarrow>
          (case e of
             KeyboardInterrupt \<Rightarrow> (evs @ Print Stdout '''' # print_warning ''Cancelled by user'', 0)
           | SystemExit n \<Rightarrow> (evs, n)
           | _ \<Rightarrow> (evs @ [Traceback e], 1)))"

subsection \<open>Observations on a run\<close>

fun is_network :: "event \<Rightarrow> bool" where
  "is_network (HttpPut r) = True"
| "is_network (HttpGet r) = True"
| "is_network e = False"

definition network_calls :: "event list \<Rightarrow> event list" where
  "network_calls evs = filter is_network evs"

fun is_output :: "event \<Rightarrow> bool" where
  \<comment> \<open>What reaches standard output or standard error.\<close>
  "is_output (Print s t) = True"
| "is_output (Prompt t) = True"
| "is_output (Traceback e) = True"
| "is_output e = False"

definition printed :: "event list \<Rightarrow> event list" where
  "printed evs = filter is_output evs"

fun stderr_line :: "event \<Rightarrow> string list" where
  "stderr_line (Print Stderr t) = [t]"
| "stderr_line e = []"

definition stderr_lines :: "event list \<Rightarrow> string list" where
  \<comment> \<open>The lines written to standard error, in order.\<close>
  "stderr_lines evs = concat (map stderr_line evs)"

fun is_traceback :: "event \<Rightarrow> bool" where
  "is_traceback (Traceback e) = True"
| "is_traceback e = False"

definition endswith :: "string \<Rightarrow> string \<Rightarrow> bool" where
  \<comment> \<open>\<^verbatim>\<open>s.endswith(suffix)\<close>\<close>
  "endswith s suffix = startswith (rev s) (rev suffix)"

definition name_ok :: "string \<Rightarrow> bool" where
  \<comment> \<open>An owner or repository name as a path segment: no slash, colon or white space in
      it, and no \<^verbatim>\<open>.git\<close> inside.\<close>
  "name_ok s = (list_all (\<lambda>c. c \<noteq> CHR ''/'' \<and> c \<noteq> CHR '':'' \<and> \<not> isspace c) s
                \<and> \<not> contains s ''.git'')"

subsection \<open>A concrete world\<close>

definition example_world :: world where
  \<comment> \<open>No variable set, a GitHub remote, a user who agrees, a service that answers 200.\<close>
  "example_world =
     \<lparr>environ = Map.empty,
      git_remote = Returns (''https://github.com/octo/demo.git'' @ [CHR 0x0A]),
      user_input = Returns ''Yes'',
      put_result = Returns \<lparr>status_code = 200, text_of = ''{}'', json_body = Some (JDict [])\<rparr>,
      get_result = Returns \<lparr>status_code = 200, text_of = ''{}'', json_body = Some (JDict [])\<rparr>,
      format_value = (\<lambda>v. ''?'')\<rparr>"

definition confirmed_world :: "response call \<Rightarrow> response call \<Rightarrow> world" where
  \<comment> \<open>The example with a token set and the two answers of the service chosen.\<close>
  "confirmed_world put get =
     example_world\<lparr>environ := [''GITHUB_TOKEN'' \<mapsto> ''s3cret''], put_result := put, get_result := get\<rparr>"

definition plain_response :: "int \<Rightarrow> string \<Rightarrow> response" where
  \<comment> \<open>A response whose body is not JSON.\<close>
  "plain_response n body = \<lparr>status_code = n, text_of = body, json_body = None\<rparr>"

definition newline_token :: string where
  \<comment> \<open>A token with a line feed in it, as a variable set from a file can hold.\<close>
  "newline_token = ''s3cret'' @ [CHR 0x0A] @ ''X''"

definition invalid_header_text :: string where
  \<comment> \<open>\<^verbatim>\<open>str(e)\<close> of the \<^verbatim>\<open>requests.exceptions.InvalidHeader\<close> that \<^verbatim>\<open>requests.put\<close> raises
      for the header value \<^verbatim>\<open>Bearer \<close> followed by that token: the message quotes the
      value, the line feed written as backslash and n.\<close>
  "invalid_header_text =
     ''Invalid leading whitespace, reserved character(s), or return character(s) in header value: ''
     @ [CHR 0x27] @ ''Bearer s3cret'' @ [CHR 0x5C] @ ''nX'' @ [CHR 0x27]"

definition leak_world :: world where
  \<comment> \<open>The example with that token set; the PUT is refused before it is sent.\<close>
  "leak_world =
     example_world\<lparr>environ := [''GITHUB_TOKEN'' \<mapsto> newline_token],
                   put_result := Raises (RequestException invalid_header_text)\<rparr>"

section \<open>Basic facts about runs\<close>

lemma fst_bind_run:
  "fst (bind_run m k) = fst m @ (case snd m of Inl e \<Rightarrow> [] | Inr x \<Rightarrow> fst (k x))"
  by (cases m) (auto simp: bind_run_def split: sum.splits prod.splits)

lemma snd_bind_run:
  "snd (bind_run m k) = (case snd m of Inl e \<Rightarrow> Inl e | Inr x \<Rightarrow> snd (k x))"
  by (cases m) (auto simp: bind_run_def split: sum.splits prod.splits)

lemma run_simps:
  "fst (emit evs) = evs" "snd (emit evs) = Inr ()"
  "fst (raise e) = []" "snd (raise e) = Inl e"
  "fst (return x) = []" "snd (return x) = Inr x"
  by (simp_all add: emit_def raise_def return_def)

lemma network_calls_simps:
  "network_calls [] = []"
  "network_calls (xs @ ys) = network_calls xs @ network_calls ys"
  "network_calls (Print s t # xs) = network_calls xs"
  "network_calls (Prompt t # xs) = network_calls xs"
  "network_calls (Subprocess c # xs) = network_calls xs"
  "network_calls (Traceback e # xs) = network_calls xs"
  "network_calls (HttpPut r # xs) = HttpPut r # network_calls xs"
  "network_calls (HttpGet r # xs) = HttpGet r # network_calls xs"
  by (simp_all add: network_calls_def)

lemma network_calls_prints:
  "network_calls (print_header t) = []"
  "network_calls (print_success t) = []"
  "network_calls (print_error t) = []"
  "network_calls (print_warning t) = []"
  "network_calls (print_info t) = []"
  "network_calls usage_lines = []"
  "network_calls token_help_lines = []"
  "network_calls (plan_lines owner repo) = []"
  "network_calls (summary_lines owner repo) = []"
  by (simp_all add: network_calls_def print_header_def print_success_def print_error_def
      print_warning_def print_info_def usage_lines_def token_help_lines_def plan_lines_def
      summary_lines_def)

lemma network_calls_get_repo_info: "network_calls (fst (get_repo_info g)) = []"
  by (simp add: get_repo_info_def network_calls_def split: call.splits)

lemma network_calls_resolve: "network_calls (fst (resolve_coordinates w)) = []"
  by (simp add: resolve_coordinates_def fst_bind_run snd_bind_run run_simps network_calls_simps
      network_calls_prints network_calls_get_repo_info split: sum.splits prod.splits)

lemma network_calls_input: "network_calls (fst (input_line i p)) = []"
  by (simp add: input_line_def network_calls_def split: call.splits)

lemma script_fst_network: "network_calls (fst (script w)) = network_calls (fst (main w))"
  by (cases "main w")
     (auto simp: script_def network_calls_simps network_calls_prints split: sum.splits exn.splits)

lemma GITHUB_TOKEN_empty:
  "GITHUB_TOKEN w = '''' \<longleftrightarrow>
     environ w ''GITHUB_TOKEN'' = None \<or> environ w ''GITHUB_TOKEN'' = Some ''''"
  by (auto simp: GITHUB_TOKEN_def getenv_def split: option.splits)

lemma stderr_lines_simps:
  "stderr_lines [] = []"
  "stderr_lines (xs @ ys) = stderr_lines xs @ stderr_lines ys"
  "stderr_lines (e # xs) = stderr_line e @ stderr_lines xs"
  by (simp_all add: stderr_lines_def)

lemma stderr_lines_prints:
  "stderr_lines (print_header t) = []"
  "stderr_lines (print_success t) = []"
  "stderr_lines (print_error t) = [glyph_cross @ '' '' @ t]"
  "stderr_lines (print_warning t) = []"
  "stderr_lines (print_info t) = []"
  "stderr_lines (plan_lines owner repo) = []"
  "stderr_lines (summary_lines owner repo) = []"
  by (simp_all add: stderr_lines_def print_header_def print_success_def print_error_def
      print_warning_def print_info_def plan_lines_def summary_lines_def)

lemma resolve_coordinates_events:
  assumes "snd (resolve_coordinates w) = Inr (owner, repo)"
  shows "fst (resolve_coordinates w) = [] \<or>
         fst (resolve_coordinates w) =
           print_info ''Auto-detecting repository from git remote...'' @ [Subprocess git_command]"
  using assms
  by (auto simp: resolve_coordinates_def fst_bind_run snd_bind_run run_simps get_repo_info_def
      split: if_splits sum.splits prod.splits call.splits)

lemma stderr_lines_resolve:
  "snd (resolve_coordinates w) = Inr (owner, repo) \<Longrightarrow>
     stderr_lines (fst (resolve_coordinates w)) = []"
  using resolve_coordinates_events [of w owner repo]
  by (auto simp: stderr_lines_simps stderr_lines_prints)

lemma main_confirmed_events:
  assumes "snd (resolve_coordinates w) = Inr (owner, repo)"
    and "GITHUB_TOKEN w \<noteq> ''''"
    and "user_input w = Returns answer"
    and "lower answer \<in> {''y'', ''yes''}"
  shows "fst (main w) =
           print_header ''Branch Protection Setup'' @ fst (resolve_coordinates w)
           @ plan_lines owner repo @ [Prompt ''Apply these settings? (y/N): '', Print Stdout '''']
           @ fst (apply_branch_protection (put_result w) owner repo BRANCH (GITHUB_TOKEN w))
           @ (case snd (apply_branch_protection (put_result w) owner repo BRANCH (GITHUB_TOKEN w)) of
                Inl e \<Rightarrow> []
              | Inr success \<Rightarrow>
                  if success then
                    summary_lines owner repo
                    @ fst (verify_protection (get_result w) (format_value w) owner repo BRANCH
                             (GITHUB_TOKEN w))
                    @ (case snd (verify_protection (get_result w) (format_value w) owner repo BRANCH
                                   (GITHUB_TOKEN w)) of
                         Inl e \<Rightarrow> []
                       | Inr u \<Rightarrow> Print Stdout '''' # print_header ''Setup Complete!'')
                  else Print Stdout '''' # print_header ''Setup Failed'')"
  using assms
  by (auto simp: main_def fst_bind_run snd_bind_run run_simps input_line_def
      split: sum.splits)

lemma main_confirmed_result:
  assumes "snd (resolve_coordinates w) = Inr (owner, repo)"
    and "GITHUB_TOKEN w \<noteq> ''''"
    and "user_input w = Returns answer"
    and "lower answer \<in> {''y'', ''yes''}"
  shows "snd (main w) =
           (case snd (apply_branch_protection (put_result w) owner repo BRANCH (GITHUB_TOKEN w)) of
              Inl e \<Rightarrow> Inl e
            | Inr success \<Rightarrow>
                if success then
                  (case snd (verify_protection (get_result w) (format_value w) owner repo BRANCH
                               (GITHUB_TOKEN w)) of
                     Inl e \<Rightarrow> Inl e
                   | Inr u \<Rightarrow> Inr ())
                else Inl (SystemExit 1))"
  using assms
  by (auto simp: main_def fst_bind_run snd_bind_run run_simps input_line_def
      split: sum.splits)

lemma apply_events:
  "fst (apply_branch_protection put owner repo branch token) =
     [Print Stdout ''Applying branch protection...'', Print Stdout '''',
      HttpPut (put_request owner repo branch token)]
     @ (case put of
          Returns response \<Rightarrow> fst (apply_response owner repo branch response)
        | Raises e \<Rightarrow>
            (case e of RequestException msg \<Rightarrow> print_error (''Request failed: '' @ msg) | _ \<Rightarrow> []))"
  by (simp add: apply_branch_protection_def fst_bind_run snd_bind_run run_simps
      split: call.splits exn.splits)

lemma apply_result:
  "snd (apply_branch_protection put owner repo branch token) =
     (case put of
        Returns response \<Rightarrow> Inr (status_code response = 200)
      | Raises e \<Rightarrow> (case e of RequestException msg \<Rightarrow> Inr False | _ \<Rightarrow> Inl e))"
  by (simp add: apply_branch_protection_def snd_bind_run run_simps apply_response_def
      split: call.splits exn.splits)

lemma verify_events_head:
  "\<exists>rest. fst (verify_protection get fmt owner repo branch token) =
     [Print Stdout '''', Print Stdout ''Verifying configuration...'', Print Stdout '''',
      HttpGet (get_request owner repo branch token)] @ rest \<and> network_calls rest = []"
  by (auto simp: verify_protection_def verify_response_def settings_line_def fst_bind_run
      snd_bind_run run_simps network_calls_simps network_calls_prints
      split: call.splits exn.splits option.splits sum.splits)

lemma example_resolve:
  "environ w ''GITHUB_OWNER'' = None \<Longrightarrow> git_remote w = git_remote example_world \<Longrightarrow>
     snd (resolve_coordinates w) = Inr (''octo'', ''demo'')"
  by (simp add: example_world_def resolve_coordinates_def OWNER_def REPO_def getenv_def
      snd_bind_run run_simps get_repo_info_def parse_remote_def remote_parts_def strip_def
      isspace_def split_def index_def falsy_def)

lemma script_result:
  "snd (script w) =
     (case snd (main w) of
        Inr u \<Rightarrow> 0
      | Inl e \<Rightarrow> (case e of KeyboardInterrupt \<Rightarrow> 0 | SystemExit n \<Rightarrow> n | _ \<Rightarrow> 1))"
  by (cases "main w") (auto simp: script_def split: sum.splits exn.splits)

lemma script_events:
  "fst (script w) =
     fst (main w) @
     (case snd (main w) of
        Inr u \<Rightarrow> []
      | Inl e \<Rightarrow>
          (case e of
             KeyboardInterrupt \<Rightarrow> Print Stdout '''' # print_warning ''Cancelled by user''
           | SystemExit n \<Rightarrow> []
           | _ \<Rightarrow> [Traceback e]))"
  by (cases "main w") (auto simp: script_def split: sum.splits exn.splits)

lemma stderr_lines_apply_response:
  "stderr_lines (fst (apply_response owner repo branch r)) =
     (if status_code r = 200 then []
      else if status_code r = 401 then [glyph_cross @ '' Authentication failed. Check your GITHUB_TOKEN.'']
      else if status_code r = 403 then
        [glyph_cross @ '' Permission denied. You need admin access to this repository.'']
      else if status_code r = 404 then
        [glyph_cross @ '' Repository or branch not found: '' @ owner @ ''/'' @ repo @ ''/'' @ branch]
      else [glyph_cross @ '' Failed with status code: '' @ str_int (status_code r),
            glyph_cross @ '' Response: '' @ text_of r])"
  by (simp add: apply_response_def stderr_lines_simps stderr_lines_prints)

lemma request_failed_distinct:
  "glyph_cross @ '' Request failed: '' @ msg
     \<notin> set (stderr_lines (fst (apply_response owner repo branch r)))"
  by (simp add: stderr_lines_apply_response glyph_cross_def)

lemma failed_run:
  assumes "snd (resolve_coordinates w) = Inr (owner, repo)"
    and "GITHUB_TOKEN w \<noteq> ''''"
    and "user_input w = Returns answer"
    and "lower answer \<in> {''y'', ''yes''}"
    and "snd (apply_branch_protection (put_result w) owner repo BRANCH (GITHUB_TOKEN w)) = Inr False"
  shows "snd (script w) = 1"
    and "network_calls (fst (script w)) = [HttpPut (put_request owner repo BRANCH (GITHUB_TOKEN w))]"
    and "stderr_lines (fst (script w)) =
           stderr_lines (fst (apply_branch_protection (put_result w) owner repo BRANCH (GITHUB_TOKEN w)))"
proof -
  note ev = main_confirmed_events [OF assms(1-4)] and res = main_confirmed_result [OF assms(1-4)]
  from res assms(5) have r: "snd (main w) = Inl (SystemExit 1)" by simp
  then show "snd (script w) = 1" by (simp add: script_result)
  have "network_calls (fst (apply_branch_protection (put_result w) owner repo BRANCH (GITHUB_TOKEN w)))
        = [HttpPut (put_request owner repo BRANCH (GITHUB_TOKEN w))]"
    by (simp add: apply_events network_calls_simps network_calls_prints apply_response_def
        split: call.splits exn.splits)
  then show "network_calls (fst (script w)) = [HttpPut (put_request owner repo BRANCH (GITHUB_TOKEN w))]"
    using assms(5)
    by (simp add: script_fst_network ev network_calls_simps network_calls_prints network_calls_resolve)
  show "stderr_lines (fst (script w)) =
           stderr_lines (fst (apply_branch_protection (put_result w) owner repo BRANCH (GITHUB_TOKEN w)))"
    using assms(5) r
    by (simp add: script_events ev stderr_lines_simps stderr_lines_prints
        stderr_lines_resolve [OF assms(1)])
qed

lemma success_run_network:
  assumes "snd (resolve_coordinates w) = Inr (owner, repo)"
    and "GITHUB_TOKEN w \<noteq> ''''"
    and "user_input w = Returns answer"
    and "lower answer \<in> {''y'', ''yes''}"
    and "snd (apply_branch_protection (put_result w) owner repo BRANCH (GITHUB_TOKEN w)) = Inr True"
  shows "network_calls (fst (script w)) =
           [HttpPut (put_request owner repo BRANCH (GITHUB_TOKEN w)),
            HttpGet (get_request owner repo BRANCH (GITHUB_TOKEN w))]"
proof -
  note ev = main_confirmed_events [OF assms(1-4)]
  obtain rest where v: "fst (verify_protection (get_result w) (format_value w) owner repo BRANCH
                               (GITHUB_TOKEN w)) =
       [Print Stdout '''', Print Stdout ''Verifying configuration...'', Print Stdout '''',
        HttpGet (get_request owner repo BRANCH (GITHUB_TOKEN w))] @ rest" and n: "network_calls rest = []"
    using verify_events_head by blast
  have a: "network_calls (fst (apply_branch_protection (put_result w) owner repo BRANCH (GITHUB_TOKEN w)))
        = [HttpPut (put_request owner repo BRANCH (GITHUB_TOKEN w))]"
    by (simp add: apply_events network_calls_simps network_calls_prints apply_response_def
        split: call.splits exn.splits)
  show ?thesis
    using assms(5) a n
    by (simp add: script_fst_network ev v network_calls_simps network_calls_prints
        network_calls_resolve split: sum.splits)
qed


lemma network_calls_apply:
  "network_calls (fst (apply_branch_protection put owner repo branch token)) =
     [HttpPut (put_request owner repo branch token)]"
  by (simp add: apply_events network_calls_simps network_calls_prints apply_response_def
      split: call.splits exn.splits)

lemma network_calls_verify:
  "network_calls (fst (verify_protection get fmt owner repo branch token)) =
     [HttpGet (get_request owner repo branch token)]"
proof -
  obtain rest where "fst (verify_protection get fmt owner repo branch token) =
       [Print Stdout '''', Print Stdout ''Verifying configuration...'', Print Stdout '''',
        HttpGet (get_request owner repo branch token)] @ rest" and "network_calls rest = []"
    using verify_events_head by blast
  then show ?thesis by (simp add: network_calls_simps)
qed

lemma network_calls_main:
  "network_calls (fst (main w)) =
     (case snd (resolve_coordinates w) of
        Inl e \<Rightarrow> []
      | Inr (owner, repo) \<Rightarrow>
          if GITHUB_TOKEN w = '''' then []
          else (case user_input w of
                  Raises e \<Rightarrow> []
                | Returns answer \<Rightarrow>
                    if lower answer \<notin> set [''y'', ''yes''] then []
                    else HttpPut (put_request owner repo BRANCH (GITHUB_TOKEN w))
                         # (if snd (apply_branch_protection (put_result w) owner repo BRANCH
                                      (GITHUB_TOKEN w)) = Inr True
                            then [HttpGet (get_request owner repo BRANCH (GITHUB_TOKEN w))]
                            else [])))"
  by (auto simp: main_def fst_bind_run snd_bind_run run_simps network_calls_simps
      network_calls_prints network_calls_resolve network_calls_apply network_calls_verify
      input_line_def network_calls_def [of "[]"]
      split: sum.splits prod.splits call.splits)

lemma network_calls_script_cases:
  "\<exists>owner repo.
     network_calls (fst (script w)) = []
     \<or> network_calls (fst (script w)) = [HttpPut (put_request owner repo BRANCH (GITHUB_TOKEN w))]
     \<or> network_calls (fst (script w)) =
         [HttpPut (put_request owner repo BRANCH (GITHUB_TOKEN w)),
          HttpGet (get_request owner repo BRANCH (GITHUB_TOKEN w))]"
  unfolding script_fst_network network_calls_main
  by (auto split: sum.splits prod.splits call.splits if_splits)

lemma startswith_append: "startswith (p @ s) p"
  by (induction p) auto

lemma endswith_append: "endswith (s @ suffix) suffix"
  by (simp add: endswith_def startswith_append)


lemma filter_bind_run:
  "filter P (fst (bind_run m k)) =
     filter P (fst m) @ (case snd m of Inl e \<Rightarrow> [] | Inr x \<Rightarrow> filter P (fst (k x)))"
  by (simp add: fst_bind_run split: sum.splits)

lemmas print_defs =
  print_header_def print_success_def print_error_def print_warning_def print_info_def
  usage_lines_def token_help_lines_def plan_lines_def summary_lines_def

lemma no_traceback_get_repo_info: "filter is_traceback (fst (get_repo_info g)) = []"
  by (simp add: get_repo_info_def split: call.splits)

lemma no_traceback_resolve: "filter is_traceback (fst (resolve_coordinates w)) = []"
  by (simp add: resolve_coordinates_def filter_bind_run snd_bind_run run_simps print_defs
      no_traceback_get_repo_info split: sum.splits prod.splits)

lemma no_traceback_apply: "filter is_traceback (fst (apply_branch_protection p owner repo b t)) = []"
  by (simp add: apply_events apply_response_def print_defs split: call.splits exn.splits)

lemma no_traceback_verify: "filter is_traceback (fst (verify_protection g fmt owner repo b t)) = []"
  by (simp add: verify_protection_def verify_response_def settings_line_def filter_bind_run
      snd_bind_run run_simps print_defs split: call.splits exn.splits option.splits sum.splits)

lemma no_traceback_main: "filter is_traceback (fst (main w)) = []"
  by (simp add: main_def filter_bind_run snd_bind_run run_simps print_defs input_line_def
      no_traceback_resolve no_traceback_apply no_traceback_verify
      split: sum.splits prod.splits call.splits)

lemma interrupted_input:
  assumes "snd (resolve_coordinates w) = Inr (owner, repo)"
    and "GITHUB_TOKEN w \<noteq> ''''"
    and "user_input w = Raises KeyboardInterrupt"
  shows "snd (main w) = Inl KeyboardInterrupt"
  using assms by (simp add: main_def snd_bind_run run_simps input_line_def)

lemma interrupted_git:
  assumes "OWNER w = '''' \<or> REPO w = ''''" and "git_remote w = Raises KeyboardInterrupt"
  shows "snd (main w) = Inl KeyboardInterrupt"
  using assms
  by (auto simp: main_def snd_bind_run run_simps resolve_coordinates_def get_repo_info_def)

lemma interrupted_put:
  assumes "snd (resolve_coordinates w) = Inr (owner, repo)"
    and "GITHUB_TOKEN w \<noteq> ''''"
    and "user_input w = Returns answer"
    and "lower answer \<in> {''y'', ''yes''}"
    and "put_result w = Raises KeyboardInterrupt"
  shows "snd (main w) = Inl KeyboardInterrupt"
  using assms(5) by (simp add: main_confirmed_result [OF assms(1-4)] apply_result)

lemma verify_result_raises:
  "g = Raises e \<Longrightarrow> snd (verify_protection g fmt owner repo b t) =
     (case e of RequestException msg \<Rightarrow> Inr () | _ \<Rightarrow> Inl e)"
  by (simp add: verify_protection_def snd_bind_run run_simps split: exn.splits)

lemma interrupted_get:
  assumes "snd (resolve_coordinates w) = Inr (owner, repo)"
    and "GITHUB_TOKEN w \<noteq> ''''"
    and "user_input w = Returns answer"
    and "lower answer \<in> {''y'', ''yes''}"
    and "put_result w = Returns r" "status_code r = 200"
    and "get_result w = Raises KeyboardInterrupt"
  shows "snd (main w) = Inl KeyboardInterrupt"
  using assms(5-7)
  by (simp add: main_confirmed_result [OF assms(1-4)] apply_result verify_result_raises)

lemma verify_failure:
  assumes "(\<exists>r. g = Returns r \<and> status_code r \<noteq> 200)
           \<or> (\<exists>r. g = Returns r \<and> status_code r = 200 \<and> json_body r = None)
           \<or> (\<exists>msg. g = Raises (RequestException msg))"
  shows "snd (verify_protection g fmt owner repo b t) = Inr ()"
    and "\<exists>text \<in> {''Unable to verify settings (may still be applied)'',
                   ''Verification request failed (settings may still be applied)''}.
           fst (verify_protection g fmt owner repo b t) =
             [Print Stdout '''', Print Stdout ''Verifying configuration...'', Print Stdout '''',
              HttpGet (get_request owner repo b t)] @ print_warning text"
  using assms
  by (auto simp: verify_protection_def verify_response_def fst_bind_run snd_bind_run run_simps)


lemma apply_token_free:
  "printed (fst (apply_branch_protection p owner repo b t)) =
     printed (fst (apply_branch_protection p owner repo b t'))"
  "snd (apply_branch_protection p owner repo b t) = snd (apply_branch_protection p owner repo b t')"
  by (simp_all add: apply_events apply_result printed_def)

lemma verify_token_free:
  "printed (fst (verify_protection g fmt owner repo b t)) =
     printed (fst (verify_protection g fmt owner repo b t'))"
  "snd (verify_protection g fmt owner repo b t) = snd (verify_protection g fmt owner repo b t')"
  by (simp_all add: verify_protection_def filter_bind_run snd_bind_run run_simps printed_def)

lemma printed_bind_run:
  "printed (fst (bind_run m k)) =
     printed (fst m) @ (case snd m of Inl e \<Rightarrow> [] | Inr x \<Rightarrow> printed (fst (k x)))"
  unfolding printed_def by (rule filter_bind_run)

lemma token_update:
  "OWNER (w\<lparr>environ := (environ w)(''GITHUB_TOKEN'' \<mapsto> t)\<rparr>) = OWNER w"
  "REPO (w\<lparr>environ := (environ w)(''GITHUB_TOKEN'' \<mapsto> t)\<rparr>) = REPO w"
  "GITHUB_TOKEN (w\<lparr>environ := (environ w)(''GITHUB_TOKEN'' \<mapsto> t)\<rparr>) = t"
  "resolve_coordinates (w\<lparr>environ := (environ w)(''GITHUB_TOKEN'' \<mapsto> t)\<rparr>) = resolve_coordinates w"
  by (simp_all add: OWNER_def REPO_def GITHUB_TOKEN_def getenv_def resolve_coordinates_def)

lemma main_token_free:
  assumes "t \<noteq> ''''" and "GITHUB_TOKEN w \<noteq> ''''"
  shows "printed (fst (main (w\<lparr>environ := (environ w)(''GITHUB_TOKEN'' \<mapsto> t)\<rparr>))) = printed (fst (main w))"
    and "snd (main (w\<lparr>environ := (environ w)(''GITHUB_TOKEN'' \<mapsto> t)\<rparr>)) = snd (main w)"
  using assms
  by (simp_all add: main_def printed_bind_run snd_bind_run run_simps token_update
      apply_token_free [of _ _ _ _ t "GITHUB_TOKEN w"]
      verify_token_free [of _ _ _ _ _ t "GITHUB_TOKEN w"]
      split: sum.splits prod.splits)

lemma printed_append: "printed (xs @ ys) = printed xs @ printed ys"
  by (simp add: printed_def)

lemma confirmed_world_facts:
  "snd (resolve_coordinates (confirmed_world p g)) = Inr (''octo'', ''demo'')"
  "GITHUB_TOKEN (confirmed_world p g) = ''s3cret''"
  "GITHUB_TOKEN (confirmed_world p g) \<noteq> ''''"
  "user_input (confirmed_world p g) = Returns ''Yes''"
  "lower ''Yes'' \<in> {''y'', ''yes''}"
  "put_result (confirmed_world p g) = p"
  "get_result (confirmed_world p g) = g"
proof -
  show "snd (resolve_coordinates (confirmed_world p g)) = Inr (''octo'', ''demo'')"
    by (rule example_resolve) (simp_all add: confirmed_world_def)
  show "GITHUB_TOKEN (confirmed_world p g) = ''s3cret''"
    by (simp add: confirmed_world_def GITHUB_TOKEN_def getenv_def)
  then show "GITHUB_TOKEN (confirmed_world p g) \<noteq> ''''" by simp
  show "user_input (confirmed_world p g) = Returns ''Yes''"
    by (simp add: confirmed_world_def example_world_def)
  show "lower ''Yes'' \<in> {''y'', ''yes''}"
    by (simp add: lower_def lower_char_def)
  show "put_result (confirmed_world p g) = p" "get_result (confirmed_world p g) = g"
    by (simp_all add: confirmed_world_def)
qed

section \<open>Facts about the string operations\<close>

lemma startswith_sep: "startswith (s @ x # t) p \<Longrightarrow> x \<notin> set p \<Longrightarrow> startswith s p"
proof (induction p arbitrary: s)
  case Nil
  then show ?case by simp
next
  case (Cons a p)
  then show ?case by (cases s) auto
qed

lemma startswith_sep_eq:
  "startswith (s @ x # t) (p @ [x]) \<Longrightarrow> x \<notin> set s \<Longrightarrow> x \<notin> set p \<Longrightarrow> s = p"
proof (induction p arbitrary: s)
  case Nil
  then show ?case by (cases s) auto
next
  case (Cons a p)
  then show ?case by (cases s) auto
qed

lemma startswith_append_right: "startswith s p \<Longrightarrow> startswith (s @ t) p"
  by (induction s p rule: startswith.induct) auto

lemma startswith_set: "startswith s p \<Longrightarrow> set p \<subseteq> set s"
  by (induction s p rule: startswith.induct) auto

lemma contains_set: "contains s sub \<Longrightarrow> set sub \<subseteq> set s"
proof (induction s)
  case Nil
  then show ?case by simp
next
  case (Cons c s)
  from Cons.prems have "startswith (c # s) sub \<or> contains s sub" by simp
  then show ?case
  proof
    assume "startswith (c # s) sub"
    then show ?thesis by (rule startswith_set)
  next
    assume "contains s sub"
    with Cons.IH show ?thesis by auto
  qed
qed

lemma endswith_refl: "endswith s s"
  using startswith_append [of "rev s" "[]"] by (simp add: endswith_def)

lemma endswith_Cons: "endswith s p \<Longrightarrow> endswith (c # s) p"
  by (simp add: endswith_def startswith_append_right)

lemma contains_across_sep:
  "contains (s @ x # t) (p @ [x]) \<Longrightarrow> x \<notin> set s \<Longrightarrow> x \<notin> set t \<Longrightarrow> x \<notin> set p \<Longrightarrow> endswith s p"
proof (induction s)
  case Nil
  then show ?case
    by (cases p) (auto simp: endswith_def dest: contains_set)
next
  case (Cons c s)
  from Cons.prems(1) have "startswith ((c # s) @ x # t) (p @ [x]) \<or> contains (s @ x # t) (p @ [x])"
    by simp
  then show ?case
  proof
    assume "startswith ((c # s) @ x # t) (p @ [x])"
    with Cons.prems have "c # s = p" by (intro startswith_sep_eq)
    then show ?thesis by (simp add: endswith_refl)
  next
    assume "contains (s @ x # t) (p @ [x])"
    with Cons have "endswith s p" by simp
    then show ?thesis by (rule endswith_Cons)
  qed
qed

lemma split_from_none: "\<not> contains s sep \<Longrightarrow> split_from cur s sep = [cur @ s]"
  by (induction s arbitrary: cur) auto

lemma split_from_char:
  "x \<notin> set s \<Longrightarrow> split_from cur (s @ x # t) [x] = (cur @ s) # split_from [] t [x]"
  by (induction s arbitrary: cur) auto

lemma replace_none: "\<not> contains s old \<Longrightarrow> old \<noteq> [] \<Longrightarrow> replace s old new = s"
  by (induction s) auto

lemma replace_before_sep:
  "\<not> contains s old \<Longrightarrow> x \<notin> set old \<Longrightarrow> old \<noteq> [] \<Longrightarrow>
     replace (s @ x # t) old new = s @ x # replace t old new"
proof (induction s)
  case Nil
  then show ?case by (cases old) auto
next
  case (Cons c s)
  then have "\<not> startswith ((c # s) @ x # t) old"
    using startswith_sep [of "c # s" x t old] by auto
  with Cons show ?case by simp
qed

lemma startswith_append_Cons:
  "startswith (s @ t) (a # p) =
     (case s of [] \<Rightarrow> startswith t (a # p) | c # s' \<Rightarrow> c = a \<and> startswith (s' @ t) p)"
  by (cases s) auto

lemma startswith_git_suffix:
  "startswith (s @ ''.git'') ''.git'' \<Longrightarrow> s \<noteq> [] \<Longrightarrow> startswith s ''.git''"
  by (auto simp: startswith_append_Cons split: list.splits)

lemma replace_git_suffix:
  "\<not> contains s ''.git'' \<Longrightarrow> replace (s @ ''.git'') ''.git'' '''' = s"
proof (induction s)
  case Nil
  show ?case by simp
next
  case (Cons c s)
  from Cons.prems have n: "\<not> startswith (c # s) ''.git''" and m: "\<not> contains s ''.git''"
    by simp_all
  have ns: "\<not> startswith (c # s @ ''.git'') ''.git''"
    using startswith_git_suffix [of "c # s"] n by auto
  have "replace (c # s @ ''.git'') ''.git'' '''' = c # replace (s @ ''.git'') ''.git'' ''''"
    using ns by (simp del: startswith.simps)
  with Cons.IH [OF m] show ?case by simp
qed

lemma strip_line:
  assumes "s \<noteq> []" and "\<not> isspace (hd s)" and "\<not> isspace (last s)"
  shows "strip (s @ [CHR 0x0A]) = s"
proof -
  have a: "dropWhile isspace (s @ [CHR 0x0A]) = s @ [CHR 0x0A]"
    using assms(1,2) by (cases s) auto
  have b: "isspace (CHR 0x0A)" by (simp add: isspace_def)
  have c: "dropWhile isspace (rev s) = rev s"
    using assms(1,3) by (cases s rule: rev_cases) auto
  show ?thesis by (simp add: strip_def a b c)
qed

lemma name_okD:
  assumes "name_ok s"
  shows "CHR ''/'' \<notin> set s" "CHR '':'' \<notin> set s" "\<And>c. c \<in> set s \<Longrightarrow> \<not> isspace c"
    "\<not> contains s ''.git''"
  using assms by (auto simp: name_ok_def list_all_iff)

lemma coordinates_text:
  assumes "name_ok owner" and "name_ok repo" and "suffix = '''' \<or> suffix = ''.git''"
  shows "replace (owner @ CHR ''/'' # repo @ suffix) ''.git'' '''' = owner @ CHR ''/'' # repo"
    and "split (owner @ CHR ''/'' # repo) ''/'' = [owner, repo]"
    and "\<not> contains (owner @ CHR ''/'' # repo) '':''"
    and "\<not> contains (owner @ CHR ''/'' # repo) ''https://''"
    and "\<not> endswith owner ''github.com'' \<Longrightarrow> \<not> contains (owner @ CHR ''/'' # repo) ''github.com/''"
proof -
  note o = name_okD [OF assms(1)] and r = name_okD [OF assms(2)]
  have tail: "replace (repo @ suffix) ''.git'' '''' = repo"
    using assms(3) r(4) by (auto simp: replace_none replace_git_suffix)
  show "replace (owner @ CHR ''/'' # repo @ suffix) ''.git'' '''' = owner @ CHR ''/'' # repo"
    using replace_before_sep [of owner "''.git''" "CHR ''/''" "repo @ suffix" "''''"] o(4) tail
    by simp
  have "\<not> contains repo ''/''"
    using contains_set [of repo "''/''"] r(1) by auto
  then show "split (owner @ CHR ''/'' # repo) ''/'' = [owner, repo]"
    using split_from_char [of "CHR ''/''" owner "[]" repo] o(1)
    by (simp add: split_def split_from_none)
  show "\<not> contains (owner @ CHR ''/'' # repo) '':''"
    using contains_set [of "owner @ CHR ''/'' # repo" "'':''"] o(2) r(2) by auto
  show "\<not> contains (owner @ CHR ''/'' # repo) ''https://''"
    using contains_set [of "owner @ CHR ''/'' # repo" "''https://''"] o(2) r(2) by auto
  show "\<not> contains (owner @ CHR ''/'' # repo) ''github.com/''" if "\<not> endswith owner ''github.com''"
    using contains_across_sep [of owner "CHR ''/''" repo "''github.com''"] o(1) r(1) that
    by auto
qed

lemma last_not_space:
  assumes "name_ok repo" and "suffix = '''' \<or> suffix = ''.git''"
  shows "\<not> isspace (last (pre @ owner @ CHR ''/'' # repo @ suffix))"
proof (cases "suffix = ''''")
  case True
  show ?thesis
  proof (cases "repo = []")
    case True
    with \<open>suffix = ''''\<close> show ?thesis by (simp add: isspace_def)
  next
    case False
    then have "last (pre @ owner @ CHR ''/'' # repo @ suffix) = last repo"
      using \<open>suffix = ''''\<close> by simp
    moreover have "last repo \<in> set repo" using False by simp
    ultimately show ?thesis using name_okD(3) [OF assms(1)] by simp
  qed
next
  case False
  with assms(2) have "suffix = ''.git''" by simp
  then show ?thesis by (simp add: isspace_def)
qed

section \<open>Coordinate resolution\<close>

text \<open>
  C1, amended. For the host github.com: when git prints the remote
  \<^verbatim>\<open>https://github.com/<owner>/<repo>\<close> or \<^verbatim>\<open>git@github.com:<owner>/<repo>\<close>, with or
  without a trailing \<^verbatim>\<open>.git\<close>, where owner and repo contain no slash, colon or white
  space and no \<^verbatim>\<open>.git\<close> inside, and (for the https form) the owner does not end with
  \<^verbatim>\<open>github.com\<close>, \<^verbatim>\<open>get_repo_info\<close> returns exactly \<^verbatim>\<open>(owner, repo)\<close>, the suffix
  removed and both names otherwise unaltered. When the remote git prints does not contain
  \<^verbatim>\<open>github.com\<close>, whatever its form, \<^verbatim>\<open>get_repo_info\<close> returns \<^verbatim>\<open>(None, None)\<close>.
\<close>

theorem get_repo_info_github:
  assumes "name_ok owner" and "name_ok repo"
    and "suffix = '''' \<or> suffix = ''.git''"
    and "(remote = ''https://github.com/'' @ owner @ ''/'' @ repo @ suffix
            \<and> \<not> endswith owner ''github.com'')
         \<or> remote = ''git@github.com:'' @ owner @ ''/'' @ repo @ suffix"
  shows "get_repo_info (Returns (remote @ [CHR 0x0A]))
           = ([Subprocess git_command], Inr (Some owner, Some repo))
         \<and> (\<forall>out. \<not> contains (strip out) ''github.com'' \<longrightarrow>
               get_repo_info (Returns out) = ([Subprocess git_command], Inr (None, None)))"
proof -
  note ct = coordinates_text [OF assms(1,2,3)]
  from assms(4) have "get_repo_info (Returns (remote @ [CHR 0x0A]))
           = ([Subprocess git_command], Inr (Some owner, Some repo))"
  proof
    assume "remote = ''https://github.com/'' @ owner @ ''/'' @ repo @ suffix
            \<and> \<not> endswith owner ''github.com''"
    then have h: "remote = ''https://github.com/'' @ owner @ ''/'' @ repo @ suffix"
      and e: "\<not> endswith owner ''github.com''"
      by simp_all
    note nogh = ct(5) [OF e]
    have "strip (remote @ [CHR 0x0A]) = remote"
    proof (rule strip_line)
      show "remote \<noteq> []" by (simp add: h)
      show "\<not> isspace (hd remote)" by (simp add: h isspace_def)
      show "\<not> isspace (last remote)"
        using last_not_space [OF assms(2,3), of "''https://github.com/''" owner] by (simp add: h)
    qed
    moreover have "parse_remote remote = Inr (Some owner, Some repo)"
      using ct(1,2) nogh
      by (simp add: h parse_remote_def remote_parts_def split_def [of "_ # _"] index_def
          split_from_none)
    ultimately show ?thesis by (simp add: get_repo_info_def)
  next
    assume h: "remote = ''git@github.com:'' @ owner @ ''/'' @ repo @ suffix"
    have "strip (remote @ [CHR 0x0A]) = remote"
    proof (rule strip_line)
      show "remote \<noteq> []" by (simp add: h)
      show "\<not> isspace (hd remote)" by (simp add: h isspace_def)
      show "\<not> isspace (last remote)"
        using last_not_space [OF assms(2,3), of "''git@github.com:''" owner] by (simp add: h)
    qed
    moreover have "parse_remote remote = Inr (Some owner, Some repo)"
      using ct(1,2,3,4)
      by (simp add: h parse_remote_def remote_parts_def split_def [of "_ # _"] index_def
          split_from_none)
    ultimately show ?thesis by (simp add: get_repo_info_def)
  qed
  moreover have "get_repo_info (Returns out) = ([Subprocess git_command], Inr (None, None))"
    if "\<not> contains (strip out) ''github.com''" for out
    using that by (simp add: get_repo_info_def parse_remote_def)
  ultimately show ?thesis by blast
qed

theorem get_repo_info_github_witness:
  "name_ok ''octo'' \<and> name_ok ''demo.py'' \<and> \<not> endswith ''octo'' ''github.com''
   \<and> get_repo_info (Returns (''https://github.com/octo/demo.py.git'' @ [CHR 0x0A]))
       = ([Subprocess git_command], Inr (Some ''octo'', Some ''demo.py''))
   \<and> get_repo_info (Returns (''git@github.com:octo/demo.py'' @ [CHR 0x0A]))
       = ([Subprocess git_command], Inr (Some ''octo'', Some ''demo.py''))
   \<and> \<not> contains (strip (''git@bitbucket.org:octo/demo.py.git'' @ [CHR 0x0A])) ''github.com''
   \<and> get_repo_info (Returns (''git@bitbucket.org:octo/demo.py.git'' @ [CHR 0x0A]))
       = ([Subprocess git_command], Inr (None, None))"
proof -
  have a: "name_ok ''octo''" and b: "name_ok ''demo.py''"
    by (simp_all add: name_ok_def isspace_def)
  have c: "\<not> endswith ''octo'' ''github.com''"
    by (simp add: endswith_def)
  have d: "\<not> contains (strip (''git@bitbucket.org:octo/demo.py.git'' @ [CHR 0x0A])) ''github.com''"
    by (simp add: strip_def isspace_def)
  note at = get_repo_info_github [OF a b]
  have "get_repo_info (Returns (''https://github.com/octo/demo.py.git'' @ [CHR 0x0A]))
       = ([Subprocess git_command], Inr (Some ''octo'', Some ''demo.py''))"
    using c at [of "''.git''" "''https://github.com/octo/demo.py.git''"] by simp
  moreover have "get_repo_info (Returns (''git@github.com:octo/demo.py'' @ [CHR 0x0A]))
       = ([Subprocess git_command], Inr (Some ''octo'', Some ''demo.py''))"
    using at [of "''''" "''git@github.com:octo/demo.py''"] by simp
  moreover have "get_repo_info (Returns (''git@bitbucket.org:octo/demo.py.git'' @ [CHR 0x0A]))
       = ([Subprocess git_command], Inr (None, None))"
    using d at [of "''''" "''git@github.com:octo/demo.py''"] by simp
  ultimately show ?thesis using a b c d by blast
qed

text \<open>
  Outside these hypotheses the names do not always come back unaltered: \<^verbatim>\<open>replace\<close>
  removes every \<^verbatim>\<open>.git\<close>, not only a trailing one, also inside the host name, after
  which the split on \<^verbatim>\<open>github.com/\<close> finds nothing and the index fails.
\<close>

lemma get_repo_info_git_inside_name:
  "snd (get_repo_info (Returns (''https://github.com/octo/my.github.io'' @ [CHR 0x0A])))
     = Inr (Some ''octo'', Some ''myhub.io'')"
  by (simp add: get_repo_info_def parse_remote_def remote_parts_def split_def index_def strip_def
      isspace_def)

lemma get_repo_info_www_host:
  "snd (get_repo_info (Returns (''https://www.github.com/octo/demo.git'' @ [CHR 0x0A])))
     = Inl IndexError"
  by (simp add: get_repo_info_def parse_remote_def remote_parts_def split_def index_def strip_def
      isspace_def)

text \<open>
  C1, as stated, at a host other than github.com: the remote
  \<^verbatim>\<open>https://gitlab.com/owner/repo.git\<close> has the form \<^verbatim>\<open>https://<host>/<owner>/<repo>.git\<close>
  and \<^verbatim>\<open>git@gitlab.com:owner/repo\<close> the form \<^verbatim>\<open>git@<host>:<owner>/<repo>\<close>, yet
  \<^verbatim>\<open>get_repo_info\<close> returns \<^verbatim>\<open>(None, None)\<close> for both and not \<^verbatim>\<open>("owner", "repo")\<close>:
  the test \<^verbatim>\<open>"github.com" in remote_url\<close> guards the whole parse.
\<close>

theorem get_repo_info_other_host_counterexample:
  "snd (get_repo_info (Returns (''https://gitlab.com/owner/repo.git'' @ [CHR 0x0A]))) = Inr (None, None)
   \<and> snd (get_repo_info (Returns (''git@gitlab.com:owner/repo'' @ [CHR 0x0A]))) = Inr (None, None)
   \<and> (Inr (None, None) :: exn + (string option \<times> string option)) \<noteq> Inr (Some ''owner'', Some ''repo'')"
  by (simp add: get_repo_info_def parse_remote_def strip_def isspace_def)

section \<open>The credential check\<close>

text \<open>
  C3. When the variable \<^verbatim>\<open>GITHUB_TOKEN\<close> is unset or empty and the coordinates resolve
  (from the environment or from the git remote), the process issues no network call,
  neither the PUT nor the GET, and ends with exit code 1, which is not zero.
\<close>

theorem missing_token_no_network:
  assumes "environ w ''GITHUB_TOKEN'' = None \<or> environ w ''GITHUB_TOKEN'' = Some ''''"
    and "snd (resolve_coordinates w) = Inr (owner, repo)"
  shows "network_calls (fst (script w)) = [] \<and> snd (script w) = 1 \<and> snd (script w) \<noteq> 0"
proof -
  from assms(1) have tok: "GITHUB_TOKEN w = ''''" by (simp add: GITHUB_TOKEN_empty)
  have net: "network_calls (fst (main w)) = []"
    using assms(2) tok
    by (simp add: main_def fst_bind_run snd_bind_run run_simps network_calls_simps
        network_calls_prints network_calls_resolve)
  have res: "snd (main w) = Inl (SystemExit 1)"
    using assms(2) tok by (simp add: main_def snd_bind_run run_simps)
  have "snd (script w) = 1"
    using res by (cases "main w") (simp add: script_def)
  with net show ?thesis by (simp add: script_fst_network)
qed

theorem missing_token_no_network_witness:
  "(environ example_world ''GITHUB_TOKEN'' = None \<or> environ example_world ''GITHUB_TOKEN'' = Some '''')
   \<and> snd (resolve_coordinates example_world) = Inr (''octo'', ''demo'')
   \<and> network_calls (fst (script example_world)) = [] \<and> snd (script example_world) = 1"
proof -
  have a: "environ example_world ''GITHUB_TOKEN'' = None
           \<or> environ example_world ''GITHUB_TOKEN'' = Some ''''"
    by (simp add: example_world_def)
  have b: "snd (resolve_coordinates example_world) = Inr (''octo'', ''demo'')"
    by (rule example_resolve) (simp_all add: example_world_def)
  show ?thesis using a b missing_token_no_network [OF a b] by simp
qed

section \<open>The confirmation prompt\<close>

text \<open>
  C4. Once the prompt is reached (coordinates resolved, token present), every line the
  user enters whose lower-case form is neither \<^verbatim>\<open>y\<close> nor \<^verbatim>\<open>yes\<close> ends the process
  with exit code 0 and without any network call.
\<close>

theorem declined_no_network:
  assumes "snd (resolve_coordinates w) = Inr (owner, repo)"
    and "GITHUB_TOKEN w \<noteq> ''''"
    and "user_input w = Returns answer"
    and "lower answer \<notin> {''y'', ''yes''}"
  shows "network_calls (fst (script w)) = [] \<and> snd (script w) = 0"
proof -
  have inp: "snd (input_line (user_input w) p) = Inr answer" for p
    using assms(3) by (simp add: input_line_def)
  have net: "network_calls (fst (main w)) = []"
    using assms inp
    by (simp add: main_def fst_bind_run snd_bind_run run_simps network_calls_simps
        network_calls_prints network_calls_resolve network_calls_input)
  have res: "snd (main w) = Inl (SystemExit 0)"
    using assms inp by (simp add: main_def snd_bind_run run_simps)
  have "snd (script w) = 0"
    using res by (cases "main w") (simp add: script_def)
  with net show ?thesis by (simp add: script_fst_network)
qed

theorem declined_no_network_witness:
  "snd (resolve_coordinates (example_world\<lparr>environ := [''GITHUB_TOKEN'' \<mapsto> ''s3cret''],
          user_input := Returns ''yep''\<rparr>)) = Inr (''octo'', ''demo'')
   \<and> GITHUB_TOKEN (example_world\<lparr>environ := [''GITHUB_TOKEN'' \<mapsto> ''s3cret''],
          user_input := Returns ''yep''\<rparr>) \<noteq> ''''
   \<and> lower ''yep'' \<notin> {''y'', ''yes''}
   \<and> network_calls (fst (script (example_world\<lparr>environ := [''GITHUB_TOKEN'' \<mapsto> ''s3cret''],
          user_input := Returns ''yep''\<rparr>))) = []
   \<and> snd (script (example_world\<lparr>environ := [''GITHUB_TOKEN'' \<mapsto> ''s3cret''],
          user_input := Returns ''yep''\<rparr>)) = 0"
proof -
  let ?w = "example_world\<lparr>environ := [''GITHUB_TOKEN'' \<mapsto> ''s3cret''], user_input := Returns ''yep''\<rparr>"
  have a: "snd (resolve_coordinates ?w) = Inr (''octo'', ''demo'')"
    by (rule example_resolve) simp_all
  have b: "GITHUB_TOKEN ?w \<noteq> ''''" by (simp add: GITHUB_TOKEN_def getenv_def)
  have c: "user_input ?w = Returns ''yep''" by simp
  have d: "lower ''yep'' \<notin> {''y'', ''yes''}" by (simp add: lower_def lower_char_def)
  show ?thesis using a b d declined_no_network [OF a b c d] by simp
qed

section \<open>The apply step\<close>

text \<open>
  C2. Past the prompt (coordinates resolved, token present, an affirmative answer), the
  status of the PUT response decides the rest of the run. With 200,
  \<^verbatim>\<open>apply_branch_protection\<close> returns \<^verbatim>\<open>True\<close> and the verification GET is issued after
  the PUT. With 401, 403 and 404 the one line on standard error is the authentication,
  the permission and the not-found diagnostic respectively, the process ends with code 1
  and the PUT stays the only network call. Any other status prints the generic failure
  with the status code and the response body and ends with code 1. A RequestException
  prints \<^verbatim>\<open>Request failed: ...\<close>, a line that no HTTP status produces, and ends with
  code 1 as well.
\<close>

theorem apply_status_outcomes:
  assumes "snd (resolve_coordinates w) = Inr (owner, repo)"
    and "GITHUB_TOKEN w \<noteq> ''''"
    and "user_input w = Returns answer"
    and "lower answer \<in> {''y'', ''yes''}"
  shows
    "(\<forall>r. put_result w = Returns r \<and> status_code r = 200 \<longrightarrow>
        snd (apply_branch_protection (put_result w) owner repo BRANCH (GITHUB_TOKEN w)) = Inr True
        \<and> network_calls (fst (script w)) =
            [HttpPut (put_request owner repo BRANCH (GITHUB_TOKEN w)),
             HttpGet (get_request owner repo BRANCH (GITHUB_TOKEN w))])
     \<and> (\<forall>r. put_result w = Returns r \<and> status_code r = 401 \<longrightarrow>
        stderr_lines (fst (script w)) = [glyph_cross @ '' Authentication failed. Check your GITHUB_TOKEN.'']
        \<and> snd (script w) = 1
        \<and> network_calls (fst (script w)) = [HttpPut (put_request owner repo BRANCH (GITHUB_TOKEN w))])
     \<and> (\<forall>r. put_result w = Returns r \<and> status_code r = 403 \<longrightarrow>
        stderr_lines (fst (script w)) =
          [glyph_cross @ '' Permission denied. You need admin access to this repository.'']
        \<and> snd (script w) = 1
        \<and> network_calls (fst (script w)) = [HttpPut (put_request owner repo BRANCH (GITHUB_TOKEN w))])
     \<and> (\<forall>r. put_result w = Returns r \<and> status_code r = 404 \<longrightarrow>
        stderr_lines (fst (script w)) =
          [glyph_cross @ '' Repository or branch not found: '' @ owner @ ''/'' @ repo @ ''/'' @ BRANCH]
        \<and> snd (script w) = 1
        \<and> network_calls (fst (script w)) = [HttpPut (put_request owner repo BRANCH (GITHUB_TOKEN w))])
     \<and> (\<forall>r. put_result w = Returns r \<and> status_code r \<notin> {200, 401, 403, 404} \<longrightarrow>
        stderr_lines (fst (script w)) =
          [glyph_cross @ '' Failed with status code: '' @ str_int (status_code r),
           glyph_cross @ '' Response: '' @ text_of r]
        \<and> snd (script w) = 1)
     \<and> (\<forall>msg. put_result w = Raises (RequestException msg) \<longrightarrow>
        stderr_lines (fst (script w)) = [glyph_cross @ '' Request failed: '' @ msg]
        \<and> (\<forall>r. glyph_cross @ '' Request failed: '' @ msg
                 \<notin> set (stderr_lines (fst (apply_response owner repo BRANCH r))))
        \<and> snd (script w) = 1)"
proof -
  let ?a = "apply_branch_protection (put_result w) owner repo BRANCH (GITHUB_TOKEN w)"
  note failed = failed_run [OF assms]
  have ok: "snd ?a = Inr True \<and> network_calls (fst (script w)) =
            [HttpPut (put_request owner repo BRANCH (GITHUB_TOKEN w)),
             HttpGet (get_request owner repo BRANCH (GITHUB_TOKEN w))]"
    if "put_result w = Returns r" "status_code r = 200" for r
  proof -
    have "snd ?a = Inr True" using that by (simp add: apply_result)
    then show ?thesis using success_run_network [OF assms] by simp
  qed
  have bad: "snd ?a = Inr False \<and> stderr_lines (fst ?a) = stderr_lines (fst (apply_response owner repo BRANCH r))"
    if "put_result w = Returns r" "status_code r \<noteq> 200" for r
    using that by (simp add: apply_result apply_events stderr_lines_simps)
  have exc: "snd ?a = Inr False \<and> stderr_lines (fst ?a) = [glyph_cross @ '' Request failed: '' @ msg]"
    if "put_result w = Raises (RequestException msg)" for msg
    using that by (simp add: apply_result apply_events stderr_lines_simps stderr_lines_prints)
  show ?thesis
  proof (intro conjI allI impI)
    fix r assume "put_result w = Returns r \<and> status_code r = 200"
    then show "snd ?a = Inr True" 
      and "network_calls (fst (script w)) =
            [HttpPut (put_request owner repo BRANCH (GITHUB_TOKEN w)),
             HttpGet (get_request owner repo BRANCH (GITHUB_TOKEN w))]"
      using ok by blast+
  next
    fix r assume h: "put_result w = Returns r \<and> status_code r = 401"
    then have b: "snd ?a = Inr False" "stderr_lines (fst ?a) = stderr_lines (fst (apply_response owner repo BRANCH r))"
      using bad [of r] by simp_all
    show "stderr_lines (fst (script w)) = [glyph_cross @ '' Authentication failed. Check your GITHUB_TOKEN.'']"
      using h b failed(3) by (simp add: stderr_lines_apply_response)
    show "snd (script w) = 1" using b failed(1) by simp
    show "network_calls (fst (script w)) = [HttpPut (put_request owner repo BRANCH (GITHUB_TOKEN w))]"
      using b failed(2) by simp
  next
    fix r assume h: "put_result w = Returns r \<and> status_code r = 403"
    then have b: "snd ?a = Inr False" "stderr_lines (fst ?a) = stderr_lines (fst (apply_response owner repo BRANCH r))"
      using bad [of r] by simp_all
    show "stderr_lines (fst (script w)) = [glyph_cross @ '' Permission denied. You need admin access to this repository.'']"
      using h b failed(3) by (simp add: stderr_lines_apply_response)
    show "snd (script w) = 1" using b failed(1) by simp
    show "network_calls (fst (script w)) = [HttpPut (put_request owner repo BRANCH (GITHUB_TOKEN w))]"
      using b failed(2) by simp
  next
    fix r assume h: "put_result w = Returns r \<and> status_code r = 404"
    then have b: "snd ?a = Inr False" "stderr_lines (fst ?a) = stderr_lines (fst (apply_response owner repo BRANCH r))"
      using bad [of r] by simp_all
    show "stderr_lines (fst (script w)) =
          [glyph_cross @ '' Repository or branch not found: '' @ owner @ ''/'' @ repo @ ''/'' @ BRANCH]"
      using h b failed(3) by (simp add: stderr_lines_apply_response)
    show "snd (script w) = 1" using b failed(1) by simp
    show "network_calls (fst (script w)) = [HttpPut (put_request owner repo BRANCH (GITHUB_TOKEN w))]"
      using b failed(2) by simp
  next
    fix r assume h: "put_result w = Returns r \<and> status_code r \<notin> {200, 401, 403, 404}"
    then have b: "snd ?a = Inr False" "stderr_lines (fst ?a) = stderr_lines (fst (apply_response owner repo BRANCH r))"
      using bad [of r] by simp_all
    show "stderr_lines (fst (script w)) =
          [glyph_cross @ '' Failed with status code: '' @ str_int (status_code r),
           glyph_cross @ '' Response: '' @ text_of r]"
      using h b failed(3) by (simp add: stderr_lines_apply_response)
    show "snd (script w) = 1" using b failed(1) by simp
  next
    fix msg assume h: "put_result w = Raises (RequestException msg)"
    then have b: "snd ?a = Inr False" "stderr_lines (fst ?a) = [glyph_cross @ '' Request failed: '' @ msg]"
      using exc [of msg] by simp_all
    show "stderr_lines (fst (script w)) = [glyph_cross @ '' Request failed: '' @ msg]"
      using b failed(3) by simp
    show "snd (script w) = 1" using b failed(1) by simp
  next
    fix msg r
    show "glyph_cross @ '' Request failed: '' @ msg
                 \<notin> set (stderr_lines (fst (apply_response owner repo BRANCH r)))"
      by (rule request_failed_distinct)
  qed
qed

theorem apply_status_outcomes_witness:
  "network_calls (fst (script (confirmed_world (Returns (plain_response 200 ''ok''))
       (Returns (plain_response 200 ''ok''))))) =
     [HttpPut (put_request ''octo'' ''demo'' ''master'' ''s3cret''),
      HttpGet (get_request ''octo'' ''demo'' ''master'' ''s3cret'')]
   \<and> stderr_lines (fst (script (confirmed_world (Returns (plain_response 401 ''no''))
       (Returns (plain_response 200 ''ok''))))) =
     [glyph_cross @ '' Authentication failed. Check your GITHUB_TOKEN.'']
   \<and> snd (script (confirmed_world (Returns (plain_response 401 ''no''))
       (Returns (plain_response 200 ''ok'')))) = 1
   \<and> network_calls (fst (script (confirmed_world (Returns (plain_response 403 ''no''))
       (Returns (plain_response 200 ''ok''))))) =
     [HttpPut (put_request ''octo'' ''demo'' ''master'' ''s3cret'')]
   \<and> stderr_lines (fst (script (confirmed_world (Returns (plain_response 404 ''no''))
       (Returns (plain_response 200 ''ok''))))) =
     [glyph_cross @ '' Repository or branch not found: octo/demo/master'']
   \<and> stderr_lines (fst (script (confirmed_world (Returns (plain_response 500 ''boom''))
       (Returns (plain_response 200 ''ok''))))) =
     [glyph_cross @ '' Failed with status code: 500'', glyph_cross @ '' Response: boom'']
   \<and> stderr_lines (fst (script (confirmed_world (Raises (RequestException ''connection refused''))
       (Returns (plain_response 200 ''ok''))))) =
     [glyph_cross @ '' Request failed: connection refused'']
   \<and> snd (script (confirmed_world (Raises (RequestException ''connection refused''))
       (Returns (plain_response 200 ''ok'')))) = 1"
proof -
  note facts = confirmed_world_facts
  note at = apply_status_outcomes [OF facts(1) facts(3) facts(4) facts(5)]
  show ?thesis
    using at [of "Returns (plain_response 200 ''ok'')" "Returns (plain_response 200 ''ok'')"]
      at [of "Returns (plain_response 401 ''no'')" "Returns (plain_response 200 ''ok'')"]
      at [of "Returns (plain_response 403 ''no'')" "Returns (plain_response 200 ''ok'')"]
      at [of "Returns (plain_response 404 ''no'')" "Returns (plain_response 200 ''ok'')"]
      at [of "Returns (plain_response 500 ''boom'')" "Returns (plain_response 200 ''ok'')"]
      at [of "Raises (RequestException ''connection refused'')" "Returns (plain_response 200 ''ok'')"]
    by (simp add: facts plain_response_def BRANCH_def str_int_def digits.simps)
qed

section \<open>The verification step\<close>

text \<open>
  C5. After a successful apply (status 200), a verification GET that comes back with a
  status other than 200, with a body \<^verbatim>\<open>response.json()\<close> cannot decode, or with a
  RequestException makes \<^verbatim>\<open>verify_protection\<close> print one warning on standard output
  and return normally; \<^verbatim>\<open>main\<close> then returns, nothing is written to standard error and
  the process ends with exit code 0.
\<close>

theorem verification_failure_not_fatal:
  assumes "snd (resolve_coordinates w) = Inr (owner, repo)"
    and "GITHUB_TOKEN w \<noteq> ''''"
    and "user_input w = Returns answer"
    and "lower answer \<in> {''y'', ''yes''}"
    and "put_result w = Returns applied" and "status_code applied = 200"
    and "(\<exists>r. get_result w = Returns r \<and> status_code r \<noteq> 200)
         \<or> (\<exists>r. get_result w = Returns r \<and> status_code r = 200 \<and> json_body r = None)
         \<or> (\<exists>msg. get_result w = Raises (RequestException msg))"
  shows "snd (verify_protection (get_result w) (format_value w) owner repo BRANCH (GITHUB_TOKEN w)) = Inr ()
     \<and> (\<exists>text \<in> {''Unable to verify settings (may still be applied)'',
                   ''Verification request failed (settings may still be applied)''}.
           fst (verify_protection (get_result w) (format_value w) owner repo BRANCH (GITHUB_TOKEN w)) =
             [Print Stdout '''', Print Stdout ''Verifying configuration...'', Print Stdout '''',
              HttpGet (get_request owner repo BRANCH (GITHUB_TOKEN w))] @ print_warning text)
     \<and> snd (main w) = Inr ()
     \<and> snd (script w) = 0
     \<and> stderr_lines (fst (script w)) = []"
proof -
  let ?v = "verify_protection (get_result w) (format_value w) owner repo BRANCH (GITHUB_TOKEN w)"
  note vf = verify_failure [OF assms(7), of "format_value w" owner repo BRANCH "GITHUB_TOKEN w"]
  have a: "snd (apply_branch_protection (put_result w) owner repo BRANCH (GITHUB_TOKEN w)) = Inr True"
    using assms(5,6) by (simp add: apply_result)
  have m: "snd (main w) = Inr ()"
    using a vf(1) by (simp add: main_confirmed_result [OF assms(1-4)])
  then have s: "snd (script w) = 0" by (simp add: script_result)
  from vf(2) obtain warning where t: "fst ?v =
             [Print Stdout '''', Print Stdout ''Verifying configuration...'', Print Stdout '''',
              HttpGet (get_request owner repo BRANCH (GITHUB_TOKEN w))] @ print_warning warning"
    by blast
  have e: "stderr_lines (fst (script w)) = []"
    using a vf(1) m assms(5,6)
    by (simp add: script_events main_confirmed_events [OF assms(1-4)] t stderr_lines_simps
        stderr_lines_prints stderr_lines_resolve [OF assms(1)] apply_events
        stderr_lines_apply_response)
  show ?thesis using vf m s e by blast
qed

theorem verification_failure_not_fatal_witness:
  "snd (script (confirmed_world (Returns (plain_response 200 ''ok''))
       (Returns (plain_response 502 ''Bad Gateway'')))) = 0
   \<and> snd (script (confirmed_world (Returns (plain_response 200 ''ok''))
       (Returns (plain_response 200 ''<html>'')))) = 0
   \<and> snd (script (confirmed_world (Returns (plain_response 200 ''ok''))
       (Raises (RequestException ''read timed out'')))) = 0
   \<and> stderr_lines (fst (script (confirmed_world (Returns (plain_response 200 ''ok''))
       (Raises (RequestException ''read timed out''))))) = []"
proof -
  note facts = confirmed_world_facts
  have ok: "put_result (confirmed_world (Returns (plain_response 200 ''ok'')) g)
              = Returns (plain_response 200 ''ok'')"
    "status_code (plain_response 200 ''ok'') = 200" for g
    by (simp_all add: facts plain_response_def)
  note at = verification_failure_not_fatal [OF facts(1) facts(3) facts(4) facts(5) ok]
  have a: "(\<exists>r. get_result (confirmed_world p (Returns (plain_response 502 ''Bad Gateway''))) = Returns r
              \<and> status_code r \<noteq> 200)" for p
    by (simp add: facts plain_response_def)
  have b: "(\<exists>r. get_result (confirmed_world p (Returns (plain_response 200 ''<html>''))) = Returns r
              \<and> status_code r = 200 \<and> json_body r = None)" for p
    by (simp add: facts plain_response_def)
  have c: "(\<exists>msg. get_result (confirmed_world p (Raises (RequestException ''read timed out'')))
              = Raises (RequestException msg))" for p
    by (simp add: facts)
  show ?thesis
    using at [of "Returns (plain_response 502 ''Bad Gateway'')"]
      at [of "Returns (plain_response 200 ''<html>'')"]
      at [of "Raises (RequestException ''read timed out'')"] a b c
    by simp
qed

text \<open>
  A body that does decode, but to something other than the dicts the digest reads, is
  not one of these outcomes: \<^verbatim>\<open>data.get\<close> then raises AttributeError inside the \<^verbatim>\<open>try\<close>,
  whose handler is for RequestException only.
\<close>

lemma verify_protection_unexpected_shape:
  "snd (verify_protection
          (Returns \<lparr>status_code = 200, text_of = ''[]'', json_body = Some (JList [])\<rparr>)
          fmt owner repo branch token) = Inl AttributeError"
  by (simp add: verify_protection_def verify_response_def snd_bind_run run_simps
      settings_line_def get2_def dict_get_def)

section \<open>The request body\<close>

text \<open>
  C6. Every PUT the process issues carries \<^verbatim>\<open>PROTECTION_CONFIG\<close> as its JSON body,
  whatever the world. The request built for one pair of coordinates is the request built
  for any other pair with only the URL replaced: owner and repo reach the URL and nothing
  else, so the serialised body is the same bytes for all coordinates.
\<close>

theorem put_body_is_static_policy:
  "(\<forall>req. HttpPut req \<in> set (fst (script w)) \<longrightarrow> json req = Some PROTECTION_CONFIG)
   \<and> json (put_request owner repo branch token) = Some PROTECTION_CONFIG
   \<and> put_request owner repo branch token =
       (put_request owner' repo' branch token)\<lparr>url := protection_url owner repo branch\<rparr>"
proof -
  have "json req = Some PROTECTION_CONFIG" if "HttpPut req \<in> set (fst (script w))" for req
  proof -
    from that have "HttpPut req \<in> set (network_calls (fst (script w)))"
      by (simp add: network_calls_def)
    then show ?thesis
      using network_calls_script_cases [of w] by (auto simp: put_request_def)
  qed
  then show ?thesis by (simp add: put_request_def)
qed

theorem put_body_is_static_policy_witness:
  "HttpPut (put_request ''octo'' ''demo'' ''master'' ''s3cret'')
     \<in> set (fst (script (confirmed_world (Returns (plain_response 200 ''ok''))
                           (Returns (plain_response 200 ''ok'')))))
   \<and> json (put_request ''octo'' ''demo'' ''master'' ''s3cret'') = Some PROTECTION_CONFIG
   \<and> put_request ''octo'' ''demo'' ''master'' ''s3cret'' =
       (put_request ''someone'' ''else'' ''master'' ''s3cret'')
         \<lparr>url := protection_url ''octo'' ''demo'' ''master''\<rparr>"
proof -
  let ?w = "confirmed_world (Returns (plain_response 200 ''ok'')) (Returns (plain_response 200 ''ok''))"
  note facts = confirmed_world_facts
  have "snd (apply_branch_protection (put_result ?w) ''octo'' ''demo'' BRANCH (GITHUB_TOKEN ?w)) = Inr True"
    by (simp add: apply_result facts plain_response_def)
  from success_run_network [OF facts(1) facts(3) facts(4) facts(5) this]
  have "HttpPut (put_request ''octo'' ''demo'' ''master'' ''s3cret'') \<in> set (network_calls (fst (script ?w)))"
    by (simp add: facts BRANCH_def)
  then have m: "HttpPut (put_request ''octo'' ''demo'' ''master'' ''s3cret'') \<in> set (fst (script ?w))"
    by (simp add: network_calls_def)
  show ?thesis
    using m put_body_is_static_policy [of ?w "''octo''" "''demo''" "''master''" "''s3cret''"
        "''someone''" "''else''"]
    by blast
qed

section \<open>The access token\<close>

text \<open>
  C8, amended. The token is the value of \<^verbatim>\<open>GITHUB_TOKEN\<close>, read from the environment
  into a module constant. Every request the process issues, the PUT and the GET, carries
  \<^verbatim>\<open>Authorization: Bearer <token>\<close>. The script itself never formats the token into a
  message: with the outcomes of the external calls held fixed, what the process writes to
  standard output and standard error (printed lines, the prompt, a traceback) and its
  exit code are the same for any two non-empty token values. The token can still reach
  the output through text the script prints as it receives it, the message of a
  RequestException after \<^verbatim>\<open>Request failed:\<close> and the response body after \<^verbatim>\<open>Response:\<close>.
\<close>

theorem token_only_in_bearer_header:
  "(\<forall>req. HttpPut req \<in> set (fst (script w)) \<or> HttpGet req \<in> set (fst (script w)) \<longrightarrow>
       map_of (headers req) ''Authorization'' = Some (''Bearer '' @ GITHUB_TOKEN w))
   \<and> (\<forall>t. t \<noteq> '''' \<and> GITHUB_TOKEN w \<noteq> '''' \<longrightarrow>
         printed (fst (script (w\<lparr>environ := (environ w)(''GITHUB_TOKEN'' \<mapsto> t)\<rparr>)))
           = printed (fst (script w))
         \<and> snd (script (w\<lparr>environ := (environ w)(''GITHUB_TOKEN'' \<mapsto> t)\<rparr>)) = snd (script w))"
proof -
  have hdr: "map_of (headers req) ''Authorization'' = Some (''Bearer '' @ GITHUB_TOKEN w)"
    if "HttpPut req \<in> set (fst (script w)) \<or> HttpGet req \<in> set (fst (script w))" for req
  proof -
    from that have "HttpPut req \<in> set (network_calls (fst (script w)))
        \<or> HttpGet req \<in> set (network_calls (fst (script w)))"
      by (simp add: network_calls_def)
    then have "headers req = api_headers (GITHUB_TOKEN w)"
      using network_calls_script_cases [of w] by (auto simp: put_request_def get_request_def)
    then show ?thesis by (simp add: api_headers_def)
  qed
  have out: "printed (fst (script (w\<lparr>environ := (environ w)(''GITHUB_TOKEN'' \<mapsto> t)\<rparr>)))
           = printed (fst (script w))
         \<and> snd (script (w\<lparr>environ := (environ w)(''GITHUB_TOKEN'' \<mapsto> t)\<rparr>)) = snd (script w)"
    if "t \<noteq> ''''" "GITHUB_TOKEN w \<noteq> ''''" for t
    using main_token_free [OF that]
    by (simp add: script_events script_result printed_append)
  from hdr out show ?thesis by blast
qed

theorem token_only_in_bearer_header_witness:
  "HttpGet (get_request ''octo'' ''demo'' ''master'' ''s3cret'')
     \<in> set (fst (script (confirmed_world (Returns (plain_response 200 ''ok''))
                           (Returns (plain_response 200 ''ok'')))))
   \<and> map_of (headers (get_request ''octo'' ''demo'' ''master'' ''s3cret'')) ''Authorization''
       = Some ''Bearer s3cret''
   \<and> printed (fst (script ((confirmed_world (Returns (plain_response 200 ''ok''))
                              (Returns (plain_response 200 ''ok'')))
         \<lparr>environ := [''GITHUB_TOKEN'' \<mapsto> ''0ther'']\<rparr>)))
       = printed (fst (script (confirmed_world (Returns (plain_response 200 ''ok''))
                                (Returns (plain_response 200 ''ok'')))))"
proof -
  let ?w = "confirmed_world (Returns (plain_response 200 ''ok'')) (Returns (plain_response 200 ''ok''))"
  note facts = confirmed_world_facts
  have "snd (apply_branch_protection (put_result ?w) ''octo'' ''demo'' BRANCH (GITHUB_TOKEN ?w)) = Inr True"
    by (simp add: apply_result facts plain_response_def)
  from success_run_network [OF facts(1) facts(3) facts(4) facts(5) this]
  have "HttpGet (get_request ''octo'' ''demo'' ''master'' ''s3cret'') \<in> set (network_calls (fst (script ?w)))"
    by (simp add: facts BRANCH_def)
  then have m: "HttpGet (get_request ''octo'' ''demo'' ''master'' ''s3cret'') \<in> set (fst (script ?w))"
    by (simp add: network_calls_def)
  have e: "(environ ?w)(''GITHUB_TOKEN'' \<mapsto> ''0ther'') = [''GITHUB_TOKEN'' \<mapsto> ''0ther'']"
    by (simp add: confirmed_world_def)
  note at = token_only_in_bearer_header [of ?w]
  from at m have h: "map_of (headers (get_request ''octo'' ''demo'' ''master'' ''s3cret'')) ''Authorization''
       = Some (''Bearer '' @ GITHUB_TOKEN ?w)"
    by blast
  from at have "''0ther'' \<noteq> '''' \<and> GITHUB_TOKEN ?w \<noteq> '''' \<longrightarrow>
      printed (fst (script (?w\<lparr>environ := (environ ?w)(''GITHUB_TOKEN'' \<mapsto> ''0ther'')\<rparr>)))
        = printed (fst (script ?w))"
    by blast
  then have p: "printed (fst (script (?w\<lparr>environ := [''GITHUB_TOKEN'' \<mapsto> ''0ther'']\<rparr>)))
        = printed (fst (script ?w))"
    unfolding e by (simp add: facts)
  from m h p show ?thesis by (simp add: facts)
qed

text \<open>
  C8, as stated, at a token that contains a line feed: \<^verbatim>\<open>requests.put\<close> refuses the
  header value and raises InvalidHeader, a RequestException whose message quotes the
  value; \<^verbatim>\<open>apply_branch_protection\<close> prints that message after \<^verbatim>\<open>Request failed:\<close>, so
  the line on standard error contains \<^verbatim>\<open>Bearer s3cret\<close>, the token.
\<close>

theorem token_in_request_failure_counterexample:
  "GITHUB_TOKEN leak_world = ''s3cret'' @ [CHR 0x0A] @ ''X''
   \<and> put_result leak_world = Raises (RequestException invalid_header_text)
   \<and> stderr_lines (fst (script leak_world)) = [glyph_cross @ '' Request failed: '' @ invalid_header_text]
   \<and> contains (glyph_cross @ '' Request failed: '' @ invalid_header_text) ''Bearer s3cret''
   \<and> snd (script leak_world) = 1"
proof -
  have r: "snd (resolve_coordinates leak_world) = Inr (''octo'', ''demo'')"
    by (rule example_resolve) (simp_all add: leak_world_def)
  have t: "GITHUB_TOKEN leak_world = ''s3cret'' @ [CHR 0x0A] @ ''X''"
    by (simp add: leak_world_def GITHUB_TOKEN_def getenv_def newline_token_def)
  then have tn: "GITHUB_TOKEN leak_world \<noteq> ''''" by simp
  have i: "user_input leak_world = Returns ''Yes''"
    by (simp add: leak_world_def example_world_def)
  have l: "lower ''Yes'' \<in> {''y'', ''yes''}"
    by (simp add: lower_def lower_char_def)
  have p: "put_result leak_world = Raises (RequestException invalid_header_text)"
    by (simp add: leak_world_def)
  have a: "snd (apply_branch_protection (put_result leak_world) ''octo'' ''demo'' BRANCH
                  (GITHUB_TOKEN leak_world)) = Inr False"
    by (simp add: p apply_result)
  note f = failed_run [OF r tn i l a]
  have e: "stderr_lines (fst (script leak_world))
             = [glyph_cross @ '' Request failed: '' @ invalid_header_text]"
    using f(3) by (simp add: p apply_events stderr_lines_simps stderr_lines_prints)
  have c: "contains (glyph_cross @ '' Request failed: '' @ invalid_header_text) ''Bearer s3cret''"
    by (simp add: glyph_cross_def invalid_header_text_def)
  from t p e c f(1) show ?thesis by blast
qed

section \<open>Interrupts\<close>

text \<open>
  C9. When \<^verbatim>\<open>main\<close> ends with a KeyboardInterrupt (raised while the process waits for
  git, for the user or for the service), the entry point prints an empty line and the
  warning \<^verbatim>\<open>Cancelled by user\<close> after what \<^verbatim>\<open>main\<close> had printed, the process ends
  with exit code 0, and no traceback is written.
\<close>

theorem interrupt_clean_exit:
  assumes "snd (main w) = Inl KeyboardInterrupt"
  shows "fst (script w) =
           fst (main w) @ [Print Stdout '''', Print Stdout (glyph_warning @ ''  Cancelled by user'')]
         \<and> snd (script w) = 0
         \<and> filter is_traceback (fst (script w)) = []"
  using assms
  by (simp add: script_events script_result print_warning_def no_traceback_main)

theorem interrupt_clean_exit_witness:
  "snd (main (example_world\<lparr>environ := [''GITHUB_TOKEN'' \<mapsto> ''s3cret''],
                            user_input := Raises KeyboardInterrupt\<rparr>)) = Inl KeyboardInterrupt
   \<and> snd (script (example_world\<lparr>environ := [''GITHUB_TOKEN'' \<mapsto> ''s3cret''],
                                user_input := Raises KeyboardInterrupt\<rparr>)) = 0
   \<and> filter is_traceback (fst (script (example_world\<lparr>environ := [''GITHUB_TOKEN'' \<mapsto> ''s3cret''],
                                user_input := Raises KeyboardInterrupt\<rparr>))) = []
   \<and> snd (main (example_world\<lparr>git_remote := Raises KeyboardInterrupt\<rparr>)) = Inl KeyboardInterrupt
   \<and> script (example_world\<lparr>git_remote := Raises KeyboardInterrupt\<rparr>) =
       (print_header ''Branch Protection Setup''
        @ print_info ''Auto-detecting repository from git remote...''
        @ [Subprocess git_command, Print Stdout '''',
           Print Stdout (glyph_warning @ ''  Cancelled by user'')], 0)"
proof -
  let ?w = "example_world\<lparr>environ := [''GITHUB_TOKEN'' \<mapsto> ''s3cret''],
                          user_input := Raises KeyboardInterrupt\<rparr>"
  let ?g = "example_world\<lparr>git_remote := Raises KeyboardInterrupt\<rparr>"
  have r: "snd (resolve_coordinates ?w) = Inr (''octo'', ''demo'')"
    by (rule example_resolve) simp_all
  have a: "snd (main ?w) = Inl KeyboardInterrupt"
    by (rule interrupted_input [OF r]) (simp_all add: GITHUB_TOKEN_def getenv_def)
  have b: "snd (main ?g) = Inl KeyboardInterrupt"
    by (rule interrupted_git) (simp_all add: OWNER_def getenv_def example_world_def)
  have ev: "fst (main ?g) = print_header ''Branch Protection Setup''
        @ print_info ''Auto-detecting repository from git remote...'' @ [Subprocess git_command]"
    by (simp add: main_def fst_bind_run snd_bind_run run_simps resolve_coordinates_def
        get_repo_info_def OWNER_def getenv_def example_world_def)
  have c: "script ?g = (print_header ''Branch Protection Setup''
        @ print_info ''Auto-detecting repository from git remote...''
        @ [Subprocess git_command, Print Stdout '''',
           Print Stdout (glyph_warning @ ''  Cancelled by user'')], 0)"
    using interrupt_clean_exit [OF b] ev by (simp add: prod_eq_iff)
  from a b c interrupt_clean_exit [OF a] show ?thesis by blast
qed

section \<open>The branch\<close>

text \<open>
  C10. \<^verbatim>\<open>BRANCH\<close> is the constant \<^verbatim>\<open>"master"\<close>: it takes no argument, so no environment
  variable and no input reaches it. The URL of every request the process issues, PUT or
  GET, ends with \<^verbatim>\<open>/branches/master/protection\<close>, whatever the world.
\<close>

theorem branch_is_master:
  "BRANCH = ''master''
   \<and> (\<forall>req. HttpPut req \<in> set (fst (script w)) \<or> HttpGet req \<in> set (fst (script w)) \<longrightarrow>
         endswith (url req) ''/branches/master/protection'')"
proof -
  have "endswith (url req) ''/branches/master/protection''"
    if "HttpPut req \<in> set (fst (script w)) \<or> HttpGet req \<in> set (fst (script w))" for req
  proof -
    from that have "HttpPut req \<in> set (network_calls (fst (script w)))
        \<or> HttpGet req \<in> set (network_calls (fst (script w)))"
      by (simp add: network_calls_def)
    then obtain owner repo where "url req = protection_url owner repo BRANCH"
      using network_calls_script_cases [of w] by (auto simp: put_request_def get_request_def)
    then have "url req = (''https://api.github.com/repos/'' @ owner @ ''/'' @ repo) @ ''/branches/master/protection''"
      by (simp add: protection_url_def BRANCH_def)
    then show ?thesis using endswith_append by metis
  qed
  then show ?thesis by (simp add: BRANCH_def)
qed

theorem branch_is_master_witness:
  "HttpPut (put_request ''octo'' ''demo'' ''master'' ''s3cret'')
     \<in> set (fst (script (confirmed_world (Returns (plain_response 403 ''no''))
                           (Returns (plain_response 200 ''ok'')))))
   \<and> endswith (url (put_request ''octo'' ''demo'' ''master'' ''s3cret''))
       ''/branches/master/protection''
   \<and> url (put_request ''octo'' ''demo'' ''master'' ''s3cret'')
       = ''https://api.github.com/repos/octo/demo/branches/master/protection''"
proof -
  let ?w = "confirmed_world (Returns (plain_response 403 ''no'')) (Returns (plain_response 200 ''ok''))"
  note facts = confirmed_world_facts
  have "snd (apply_branch_protection (put_result ?w) ''octo'' ''demo'' BRANCH (GITHUB_TOKEN ?w)) = Inr False"
    by (simp add: apply_result facts plain_response_def)
  from failed_run(2) [OF facts(1) facts(3) facts(4) facts(5) this]
  have "HttpPut (put_request ''octo'' ''demo'' ''master'' ''s3cret'') \<in> set (network_calls (fst (script ?w)))"
    by (simp add: facts BRANCH_def)
  then have m: "HttpPut (put_request ''octo'' ''demo'' ''master'' ''s3cret'') \<in> set (fst (script ?w))"
    by (simp add: network_calls_def)
  have u: "url (put_request ''octo'' ''demo'' ''master'' ''s3cret'')
       = ''https://api.github.com/repos/octo/demo/branches/master/protection''"
    by (simp add: put_request_def protection_url_def)
  show ?thesis
    using m u branch_is_master [of ?w] by blast
qed

section \<open>Remotes that cannot be resolved\<close>

text \<open>
  When git fails with CalledProcessError, or prints a remote without \<^verbatim>\<open>github.com\<close> in
  it, \<^verbatim>\<open>get_repo_info\<close> returns \<^verbatim>\<open>(None, None)\<close>; \<^verbatim>\<open>main\<close> prints the usage message and
  the process ends with exit code 1 without a network call.
\<close>

lemma unresolved_coordinates_abort:
  assumes "OWNER w = '''' \<or> REPO w = ''''"
    and "git_remote w = Raises CalledProcessError
         \<or> (\<exists>out. git_remote w = Returns out \<and> \<not> contains (strip out) ''github.com'')"
  shows "snd (get_repo_info (git_remote w)) = Inr (None, None)"
    and "fst (script w) =
           print_header ''Branch Protection Setup''
           @ print_info ''Auto-detecting repository from git remote...''
           @ [Subprocess git_command] @ usage_lines"
    and "snd (script w) = 1"
    and "network_calls (fst (script w)) = []"
proof -
  show g: "snd (get_repo_info (git_remote w)) = Inr (None, None)"
    using assms(2) by (auto simp: get_repo_info_def parse_remote_def)
  have e: "fst (get_repo_info (git_remote w)) = [Subprocess git_command]"
    by (simp add: get_repo_info_def split: call.splits)
  have m: "snd (main w) = Inl (SystemExit 1)"
    using assms(1) g
    by (simp add: main_def resolve_coordinates_def snd_bind_run run_simps falsy_def)
  then show "snd (script w) = 1" by (simp add: script_result)
  show "fst (script w) =
           print_header ''Branch Protection Setup''
           @ print_info ''Auto-detecting repository from git remote...''
           @ [Subprocess git_command] @ usage_lines"
    using assms(1) g e m
    by (simp add: script_events main_def resolve_coordinates_def fst_bind_run snd_bind_run
        run_simps falsy_def)
  then show "network_calls (fst (script w)) = []"
    by (simp add: network_calls_simps network_calls_prints)
qed

text \<open>
  C7 at the remote \<^verbatim>\<open>https://github.com\<close>, which names no owner and no repository:
  \<^verbatim>\<open>remote_url.split("github.com/")\<close> has one element, the index \<^verbatim>\<open>[1]\<close> raises
  IndexError, and the handler of \<^verbatim>\<open>get_repo_info\<close> catches CalledProcessError only. No
  pair is returned; the process prints a traceback in place of the usage message and
  ends with exit code 1. The remote \<^verbatim>\<open>github.com\<close>, with no colon for the other branch
  to split on, fails the same way.
\<close>

theorem get_repo_info_index_error:
  "get_repo_info (Returns (''https://github.com'' @ [CHR 0x0A]))
     = ([Subprocess git_command], Inl IndexError)
   \<and> get_repo_info (Returns (''github.com'' @ [CHR 0x0A]))
     = ([Subprocess git_command], Inl IndexError)
   \<and> script (example_world\<lparr>git_remote := Returns (''https://github.com'' @ [CHR 0x0A])\<rparr>)
     = (print_header ''Branch Protection Setup''
        @ print_info ''Auto-detecting repository from git remote...''
        @ [Subprocess git_command, Traceback IndexError], 1)"
proof -
  let ?w = "example_world\<lparr>git_remote := Returns (''https://github.com'' @ [CHR 0x0A])\<rparr>"
  have a: "get_repo_info (Returns (''https://github.com'' @ [CHR 0x0A]))
     = ([Subprocess git_command], Inl IndexError)"
    by (simp add: get_repo_info_def parse_remote_def remote_parts_def split_def index_def
        strip_def isspace_def)
  have b: "get_repo_info (Returns (''github.com'' @ [CHR 0x0A]))
     = ([Subprocess git_command], Inl IndexError)"
    by (simp add: get_repo_info_def parse_remote_def remote_parts_def split_def index_def
        strip_def isspace_def)
  have o: "OWNER ?w = ''''" by (simp add: OWNER_def getenv_def example_world_def)
  have "main ?w = (print_header ''Branch Protection Setup''
        @ print_info ''Auto-detecting repository from git remote...''
        @ [Subprocess git_command], Inl IndexError)"
    using a o
    by (simp add: prod_eq_iff main_def resolve_coordinates_def fst_bind_run snd_bind_run run_simps)
  then have "script ?w = (print_header ''Branch Protection Setup''
        @ print_info ''Auto-detecting repository from git remote...''
        @ [Subprocess git_command, Traceback IndexError], 1)"
    by (simp add: script_def)
  with a b show ?thesis by blast
qed

end
